theory Spec2Isabelle
  imports Main
begin

section \<open>ts-document: the schema extraction engine of \<^verbatim>\<open>src/generate.ts\<close>\<close>

text \<open>
  The engine reads a TypeScript project through the ts-morph API. Nodes, types and
  symbols are objects of that API with an identity; they are modelled as identifiers
  (natural numbers) and the API's getters as the fields of three records, one per class.
  JavaScript strings are \<^typ>\<open>string\<close>; \<^verbatim>\<open>undefined\<close> is \<^const>\<open>None\<close>.
\<close>

subsection \<open>Values\<close>

type_synonym node = nat
type_synonym ty = nat
type_synonym sym = nat

text \<open>\<^verbatim>\<open>TagType\<close>: \<^verbatim>\<open>{ name, value }\<close>.\<close>

record tag =
  tagName :: string
  tagValue :: string

text \<open>A tag of a JSDoc block of a declaration: \<^verbatim>\<open>getTagName()\<close> and
  \<^verbatim>\<open>getCommentText()\<close>, the latter possibly \<^verbatim>\<open>undefined\<close>.\<close>

record jsDocTag =
  getTagName :: string
  getCommentText :: "string option"

text \<open>A \<^verbatim>\<open>JSDocTagInfo\<close> of a compiler symbol. The field \<open>tagInfoText\<close> is the
  value of \<^verbatim>\<open>tag.text?.[0].text\<close>: TypeScript gives a tag either no text or a
  non-empty list of display parts, and only the first part is read.\<close>

record jsDocTagInfo =
  tagInfoName :: string
  tagInfoText :: "string option"

text \<open>A \<^verbatim>\<open>SymbolDisplayPart\<close> of a documentation comment.\<close>

record symbolDisplayPart =
  partKind :: string
  partText :: string

text \<open>JavaScript truthiness of a string, and \<^verbatim>\<open>x || ''\<close> on a string that may be
  \<^verbatim>\<open>undefined\<close>.\<close>

definition truthy :: "string \<Rightarrow> bool" where
  "truthy s = (s \<noteq> [])"

fun truthyOpt :: "string option \<Rightarrow> bool" where
  "truthyOpt None = False"
| "truthyOpt (Some s) = truthy s"

fun orEmpty :: "string option \<Rightarrow> string" where
  "orEmpty None = []"
| "orEmpty (Some s) = s"

definition TAG_NAMES_FOR_DESCRIPTION :: "string list" where
  "TAG_NAMES_FOR_DESCRIPTION = [''zh'', ''en'']"

definition KEYWORDS_TO_SKIP :: "string list" where
  "KEYWORDS_TO_SKIP = [''Omit'']"

subsection \<open>Tag parser\<close>

text \<open>The loop of \<^verbatim>\<open>getDeclarationTags\<close> over the raw tags: the pair is the local
  variable \<^verbatim>\<open>title\<close> and the array \<^verbatim>\<open>tags\<close>.\<close>

fun declarationTagLoop :: "jsDocTag list \<Rightarrow> string option \<times> tag list \<Rightarrow> string option \<times> tag list" where
  "declarationTagLoop [] acc = acc"
| "declarationTagLoop (t # ts) (title, tags) =
     (let name = getTagName t;
          val = orEmpty (getCommentText t);
          title' = (if name = ''title'' then Some val else title)
      in declarationTagLoop ts (title', tags @ [\<lparr>tagName = name, tagValue = val\<rparr>]))"

text \<open>\<^verbatim>\<open>getDeclarationTags\<close>, on the value of \<^verbatim>\<open>declaration.getJsDocs()\<close>: the tags
  of the first block, or none.\<close>

definition rawTags :: "jsDocTag list list \<Rightarrow> jsDocTag list" where
  "rawTags docs = (case docs of [] \<Rightarrow> [] | d # _ \<Rightarrow> d)"

definition getDeclarationTags :: "jsDocTag list list \<Rightarrow> string option \<times> tag list" where
  "getDeclarationTags docs = declarationTagLoop (rawTags docs) (None, [])"

text \<open>The body of \<^verbatim>\<open>forEach\<close> in \<^verbatim>\<open>getSymbolTags\<close>, on the growing array.\<close>

definition promote :: "string \<Rightarrow> tag list \<Rightarrow> string \<Rightarrow> tag list" where
  "promote text tags tagNameForDescription =
     (if find (\<lambda>t. tagName t = tagNameForDescription) tags = None
      then tags @ [\<lparr>tagName = tagNameForDescription, tagValue = text\<rparr>]
      else tags)"

text \<open>\<^verbatim>\<open>getSymbolTags\<close>, on the symbol's \<^verbatim>\<open>getJsDocTags()\<close> and
  \<^verbatim>\<open>getDocumentationComment(undefined)\<close>.\<close>

definition getSymbolTags :: "jsDocTagInfo list \<Rightarrow> symbolDisplayPart list \<Rightarrow> bool \<Rightarrow> tag list" where
  "getSymbolTags jsDocTags documentationComment strictComment =
     (let tags = map (\<lambda>t. \<lparr>tagName = tagInfoName t, tagValue = orEmpty (tagInfoText t)\<rparr>) jsDocTags
      in if \<not> strictComment then
           (case documentationComment of
              [] \<Rightarrow> tags
            | commonComment # _ \<Rightarrow>
                if partKind commonComment = ''text'' \<and> truthy (partText commonComment)
                then foldl (promote (partText commonComment)) tags TAG_NAMES_FOR_DESCRIPTION
                else tags)
         else tags)"

subsection \<open>Property extractor\<close>

text \<open>
  \<^verbatim>\<open>propertyRegex = /(\w+)\s{0,}([?]?)\s{0,}:(.*?);?$/s\<close>.
  \<open>isWordChar\<close> is \<^verbatim>\<open>\w\<close> and \<open>isSpaceChar\<close> is \<^verbatim>\<open>\s\<close> on the characters a
  \<^typ>\<open>char\<close> can hold (code units 0 to 255).
\<close>

definition isWordChar :: "char \<Rightarrow> bool" where
  "isWordChar c = (let n = (of_char c :: nat)
     in (48 \<le> n \<and> n \<le> 57) \<or> (65 \<le> n \<and> n \<le> 90) \<or> n = 95 \<or> (97 \<le> n \<and> n \<le> 122))"

definition isSpaceChar :: "char \<Rightarrow> bool" where
  "isSpaceChar c = (let n = (of_char c :: nat) in (9 \<le> n \<and> n \<le> 13) \<or> n = 32 \<or> n = 160)"

text \<open>The tail \<^verbatim>\<open>(.*?);?$\<close> with the flag \<^verbatim>\<open>s\<close>: the lazy group grows until the
  rest is empty or a single semicolon, so it is the rest without one final semicolon.\<close>

definition lazyToEnd :: "string \<Rightarrow> string" where
  "lazyToEnd r = (if r \<noteq> [] \<and> last r = CHR '';'' then butlast r else r)"

text \<open>
  A match attempt at the start of \<open>text\<close>. Every quantifier before the colon is greedy
  and what follows it cannot begin with a character it gave back (a word character is
  neither white space, \<^verbatim>\<open>?\<close> nor \<^verbatim>\<open>:\<close>), so backtracking finds no further match
  and the greedy choice is the only one. The result is the three capture groups.
\<close>

definition matchHere :: "string \<Rightarrow> (string \<times> string \<times> string) option" where
  "matchHere text =
     (let g1 = takeWhile isWordChar text;
          r1 = dropWhile isWordChar text
      in if g1 = [] then None
         else
           let r2 = dropWhile isSpaceChar r1;
               g2 = (case r2 of [] \<Rightarrow> [] | c # _ \<Rightarrow> if c = CHR ''?'' then [c] else []);
               r3 = drop (length g2) r2;
               r4 = dropWhile isSpaceChar r3
           in (case r4 of
                 [] \<Rightarrow> None
               | c # r5 \<Rightarrow> if c = CHR '':'' then Some (g1, g2, lazyToEnd r5) else None))"

text \<open>\<^verbatim>\<open>propertyRegex.exec(text)\<close>: the leftmost position with a match.\<close>

fun propertyRegexExec :: "string \<Rightarrow> (string \<times> string \<times> string) option" where
  "propertyRegexExec [] = None"
| "propertyRegexExec (c # cs) =
     (case matchHere (c # cs) of
        Some r \<Rightarrow> Some r
      | None \<Rightarrow> propertyRegexExec cs)"

record extractType =
  exName :: string
  exType :: string
  exIsOptional :: bool

definition extractFromPropertyText :: "string \<Rightarrow> extractType option" where
  "extractFromPropertyText text =
     (case propertyRegexExec text of
        None \<Rightarrow> None
      | Some (g1, g2, g3) \<Rightarrow> Some \<lparr>exName = g1, exType = g3, exIsOptional = (g2 = ''?'')\<rparr>)"


subsection \<open>The project: nodes, types and symbols\<close>

datatype kind =
  InterfaceDeclaration | TypeAliasDeclaration | FunctionDeclaration | FunctionType | OtherKind

text \<open>
  A ts-morph \<^verbatim>\<open>Node\<close>. \<open>forEachDescendant\<close> lists the descendants in the order the
  traversal calls back (the callbacks of this program never stop or skip it).
  \<open>getJsDocs\<close> is \<^const>\<open>None\<close> when the node has no such method
  (\<^verbatim>\<open>'getJsDocs' in declaration\<close> is false), and so is \<open>getProperties\<close>; it lists the
  symbols of the property signatures. \<open>getSymbolOfNode\<close> is \<^verbatim>\<open>getSymbol() as Symbol\<close>
  of a parameter or property signature, which the binder always gives one.
  \<open>getReturnTypeText\<close> is \<^verbatim>\<open>getReturnType().getText()\<close> and \<open>getInitializerText\<close> is
  \<^verbatim>\<open>getInitializer()?.getText()\<close>.
\<close>

record nodeInfo =
  getType :: ty
  forEachDescendant :: "node list"
  isTypeNode :: bool
  getJsDocs :: "jsDocTag list list option"
  getFilePath :: string
  getKindName :: kind
  getText :: string
  printText :: string
  getProperties :: "sym list option"
  getStartLineNumber :: int
  getTypeNode :: "node option"
  getParameters :: "node list"
  getReturnTypeText :: string
  getSymbolOfNode :: sym
  getName :: string
  isOptional :: bool
  getInitializerText :: "string option"

text \<open>A ts-morph \<^verbatim>\<open>Type\<close>; \<open>getPropertiesOfType\<close> is the type checker's.\<close>

record typeInfo =
  getAliasSymbol :: "sym option"
  getSymbol :: "sym option"
  isInterface :: bool
  isEnum :: bool
  isUnion :: bool
  isIntersection :: bool
  getUnionTypes :: "ty list"
  getIntersectionTypes :: "ty list"
  getTypeText :: string
  getPropertiesOfType :: "sym list"

text \<open>A ts-morph \<^verbatim>\<open>Symbol\<close> with the two documentation getters of its compiler symbol.\<close>

record symbolInfo =
  getSymName :: string
  getDeclarations :: "node list"
  getJsDocTags :: "jsDocTagInfo list"
  getDocumentationComment :: "symbolDisplayPart list"

record graph =
  nodeOf :: "node \<Rightarrow> nodeInfo"
  typeOf :: "ty \<Rightarrow> typeInfo"
  symbolOf :: "sym \<Rightarrow> symbolInfo"

definition isUnionOrIntersection :: "typeInfo \<Rightarrow> bool" where
  "isUnionOrIntersection t = (isUnion t \<or> isIntersection t)"

subsection \<open>Schemas\<close>

text \<open>\<^verbatim>\<open>PropertyType\<close>. \<open>propInitializerText\<close> is \<^const>\<open>None\<close> when the object has no
  such field, \<open>Some None\<close> when it is \<^verbatim>\<open>null\<close>.\<close>

record propertyType =
  propName :: string
  propType :: string
  propIsOptional :: bool
  propTags :: "tag list"
  propInitializerText :: "string option option"

datatype schema =
  InterfaceSchema "tag list" "propertyType list"
| FunctionSchema "tag list" "propertyType list" string
| NestedTypeSchema "tag list" string

record schemaItem =
  itemTitle :: string
  itemSchema :: schema

datatype schemaOutput = SchemaMap "string \<rightharpoonup> schema" | SchemaList "schemaItem list"

datatype error = TypeError

text \<open>
  The two mutable objects every function of the engine shares: the array
  \<^verbatim>\<open>nestedTypeList\<close> and the \<^verbatim>\<open>Set<Type>\<close> \<^verbatim>\<open>parsedNestedTypes\<close>, a JavaScript
  set being the list of its elements in insertion order. \<open>emittedFor\<close> is a history
  variable, not program state: it records the type for which each entry of
  \<open>nestedTypeList\<close> was pushed, and nothing reads it.
\<close>

record state =
  nestedTypeList :: "schemaItem list"
  parsedNestedTypes :: "ty list"
  emittedFor :: "ty list"

text \<open>\<^verbatim>\<open>Set.prototype.add\<close>.\<close>

definition setAdd :: "ty \<Rightarrow> ty list \<Rightarrow> ty list" where
  "setAdd t s = (if t \<in> set s then s else s @ [t])"

text \<open>\<^verbatim>\<open>String.prototype.includes\<close>.\<close>

fun stringIncludes :: "string \<Rightarrow> string \<Rightarrow> bool" where
  "stringIncludes [] p = (p = [])"
| "stringIncludes (c # cs) p = (take (length p) (c # cs) = p \<or> stringIncludes cs p)"

text \<open>
  What the engine calls and this repository does not define: prettier's \<^verbatim>\<open>format\<close>, the
  helpers \<^verbatim>\<open>toSingleLine\<close> and \<^verbatim>\<open>escape\<close> and the constants \<^verbatim>\<open>defaultTypeMap\<close> and
  \<^verbatim>\<open>defaultLinkFormatter\<close> of modules that are not among the sources, and TypeScript's
  parser and printer on the scratch file of the linkifier.
\<close>

datatype tsNode = Identifier string | Syntax nat "tsNode list"

record linkArgs =
  typeName :: string
  jsDocTitle :: "string option"
  fullPath :: "string option"

text \<open>Modelled from the spec: \<^verbatim>\<open>DefaultTypeMapT\<close> (its declaration is in a module that is
  not among the sources): an entry supplies a property's type and tags.\<close>

record defaultEntry =
  defaultType :: string
  defaultTags :: "tag list"

record externals =
  format :: "string \<Rightarrow> string"
  toSingleLine :: "string \<Rightarrow> string"
  escape :: "string \<Rightarrow> string"
  parseSource :: "string \<Rightarrow> tsNode"
  printSource :: "tsNode \<Rightarrow> string"
  defaultTypeMapConst :: "string \<rightharpoonup> defaultEntry"
  defaultLinkFormatter :: "linkArgs \<Rightarrow> string option"

subsection \<open>Nested-type resolver\<close>

definition getSymbolByType :: "graph \<Rightarrow> ty \<Rightarrow> sym option" where
  "getSymbolByType g t =
     (case getAliasSymbol (typeOf g t) of
        Some s \<Rightarrow> Some s
      | None \<Rightarrow> getSymbol (typeOf g t))"

definition getDeclarationBySymbol :: "graph \<Rightarrow> sym option \<Rightarrow> node option" where
  "getDeclarationBySymbol g symbol =
     (case symbol of
        None \<Rightarrow> None
      | Some s \<Rightarrow> (case getDeclarations (symbolOf g s) of [] \<Rightarrow> None | d # _ \<Rightarrow> Some d))"

text \<open>The title that \<^verbatim>\<open>hasJSDocTitle\<close> and the linkifier read off a declaration that may
  be \<^verbatim>\<open>undefined\<close> or have no \<^verbatim>\<open>getJsDocs\<close>.\<close>

definition declarationTitle :: "graph \<Rightarrow> node option \<Rightarrow> string option" where
  "declarationTitle g declaration =
     (case declaration of
        None \<Rightarrow> None
      | Some d \<Rightarrow>
          (case getJsDocs (nodeOf g d) of
             None \<Rightarrow> None
           | Some docs \<Rightarrow> fst (getDeclarationTags docs)))"

text \<open>\<^verbatim>\<open>hasJSDocTitle\<close>: the result and the set after the call.\<close>

definition hasJSDocTitle :: "graph \<Rightarrow> node option \<Rightarrow> ty list \<Rightarrow> bool \<times> ty list" where
  "hasJSDocTitle g declaration parsedNestedTypeSet =
     (case declaration of
        None \<Rightarrow> (False, parsedNestedTypeSet)
      | Some d \<Rightarrow>
          if truthyOpt (declarationTitle g declaration)
          then (True, setAdd (getType (nodeOf g d)) parsedNestedTypeSet)
          else (False, parsedNestedTypeSet))"

definition isAliasDeclaration :: "graph \<Rightarrow> ty \<Rightarrow> bool" where
  "isAliasDeclaration g t =
     (case getAliasSymbol (typeOf g t) of
        None \<Rightarrow> False
      | Some aliasSymbol \<Rightarrow>
          (case getDeclarationBySymbol g (Some aliasSymbol) of
             None \<Rightarrow> False
           | Some d \<Rightarrow> getKindName (nodeOf g d) = TypeAliasDeclaration))"

text \<open>\<^verbatim>\<open>isTarget\<close>: the result and the set after the call.\<close>

definition isTarget :: "graph \<Rightarrow> ty \<Rightarrow> ty list \<Rightarrow> bool \<times> ty list" where
  "isTarget g t parsedNestedTypeSet =
     (if t \<in> set parsedNestedTypeSet then (False, parsedNestedTypeSet)
      else
        let declaration = getDeclarationBySymbol g (getSymbolByType g t);
            (titled, parsed') = hasJSDocTitle g declaration parsedNestedTypeSet
        in if titled then (False, parsed')
           else if (case declaration of
                      None \<Rightarrow> False
                    | Some d \<Rightarrow> truthy (getFilePath (nodeOf g d))
                         \<and> stringIncludes (getFilePath (nodeOf g d)) ''/node_modules/'')
           then (False, parsed')
           else (isInterface (typeOf g t) \<or> isEnum (typeOf g t)
                   \<or> isUnionOrIntersection (typeOf g t) \<or> isAliasDeclaration g t, parsed'))"

definition getDeclarationTextBySymbol :: "externals \<Rightarrow> graph \<Rightarrow> sym option \<Rightarrow> string" where
  "getDeclarationTextBySymbol x g symbol =
     format x (case getDeclarationBySymbol g symbol of
                 None \<Rightarrow> []
               | Some d \<Rightarrow> printText (nodeOf g d))"

text \<open>A \<^verbatim>\<open>forEach\<close> whose callback may raise or run out of fuel.\<close>

fun forEachM :: "('a \<Rightarrow> 's \<Rightarrow> (error + 's) option) \<Rightarrow> 'a list \<Rightarrow> 's \<Rightarrow> (error + 's) option" where
  "forEachM f [] s = Some (Inr s)"
| "forEachM f (a # as) s =
     (case f a s of
        None \<Rightarrow> None
      | Some (Inl e) \<Rightarrow> Some (Inl e)
      | Some (Inr s') \<Rightarrow> forEachM f as s')"

text \<open>
  \<^verbatim>\<open>dumpNestedTypes\<close> calls itself from inside two nested callbacks, so it is written in
  three layers over the recursive call \<open>rec\<close>. \<open>exploreTarget\<close> is lines 221 to 238, the
  recursion into the members of a union or intersection or into the properties of an
  interface; the cast of line 233 is an unguarded call on a declaration that may be
  \<^verbatim>\<open>undefined\<close> or have no \<^verbatim>\<open>getProperties\<close>, which raises.
\<close>

definition exploreTarget ::
  "(node option \<Rightarrow> state \<Rightarrow> (error + state) option) \<Rightarrow> graph \<Rightarrow> ty \<Rightarrow> sym option \<Rightarrow> state
     \<Rightarrow> (error + state) option" where
  "exploreTarget rec g typeOfIdentifier symbolOfIdentifier st =
     (if isUnionOrIntersection (typeOf g typeOfIdentifier) then
        forEachM (\<lambda>subType s.
            case getSymbolByType g subType of
              None \<Rightarrow> Some (Inr s)
            | Some subTypeSymbol \<Rightarrow>
                (case getDeclarationBySymbol g (Some subTypeSymbol) of
                   None \<Rightarrow> Some (Inr s)
                 | Some d \<Rightarrow> rec (Some d) s))
          (if isUnion (typeOf g typeOfIdentifier)
           then getUnionTypes (typeOf g typeOfIdentifier)
           else getIntersectionTypes (typeOf g typeOfIdentifier))
          st
      else if isInterface (typeOf g typeOfIdentifier) then
        (case getDeclarationBySymbol g symbolOfIdentifier of
           None \<Rightarrow> Some (Inl TypeError)
         | Some d \<Rightarrow>
             (case getProperties (nodeOf g d) of
                None \<Rightarrow> Some (Inl TypeError)
              | Some props \<Rightarrow>
                  forEachM (\<lambda>a s. rec (getDeclarationBySymbol g (Some a)) s) props st))
      else Some (Inr st))"

text \<open>The callback of \<^verbatim>\<open>forEachDescendant\<close>, lines 193 to 239.\<close>

definition visitDescendant ::
  "(node option \<Rightarrow> state \<Rightarrow> (error + state) option) \<Rightarrow> externals \<Rightarrow> graph \<Rightarrow> node \<Rightarrow> state
     \<Rightarrow> (error + state) option" where
  "visitDescendant rec x g descendant st =
     (let typeOfIdentifier = getType (nodeOf g descendant);
          symbolOfIdentifier = getSymbolByType g typeOfIdentifier;
          title = (case symbolOfIdentifier of
                     None \<Rightarrow> None
                   | Some s \<Rightarrow> Some (getSymName (symbolOf g s)))
      in if \<not> isTypeNode (nodeOf g descendant) \<or> \<not> truthyOpt title
            \<or> orEmpty title \<in> set KEYWORDS_TO_SKIP
         then Some (Inr st)
         else
           (case isTarget g typeOfIdentifier (parsedNestedTypes st) of
              (False, parsed') \<Rightarrow> Some (Inr (st\<lparr>parsedNestedTypes := parsed'\<rparr>))
            | (True, parsed') \<Rightarrow>
                exploreTarget rec g typeOfIdentifier symbolOfIdentifier
                  (st\<lparr>parsedNestedTypes := setAdd typeOfIdentifier parsed',
                      nestedTypeList := nestedTypeList st @
                        [\<lparr>itemTitle = orEmpty title,
                          itemSchema = NestedTypeSchema
                            [\<lparr>tagName = ''title'', tagValue = orEmpty title\<rparr>]
                            (getDeclarationTextBySymbol x g symbolOfIdentifier)\<rparr>],
                      emittedFor := emittedFor st @ [typeOfIdentifier]\<rparr>)))"

text \<open>The body of \<^verbatim>\<open>dumpNestedTypes\<close>.\<close>

definition dumpBody ::
  "(node option \<Rightarrow> state \<Rightarrow> (error + state) option) \<Rightarrow> externals \<Rightarrow> graph \<Rightarrow> node option \<Rightarrow> state
     \<Rightarrow> (error + state) option" where
  "dumpBody rec x g declaration st =
     (case declaration of
        None \<Rightarrow> Some (Inr st)
      | Some d \<Rightarrow>
          (case hasJSDocTitle g declaration (parsedNestedTypes st) of
             (True, parsed') \<Rightarrow> Some (Inr (st\<lparr>parsedNestedTypes := parsed'\<rparr>))
           | (False, parsed') \<Rightarrow>
               forEachM (visitDescendant rec x g) (forEachDescendant (nodeOf g d))
                 (st\<lparr>parsedNestedTypes := parsed'\<rparr>)))"

text \<open>\<^verbatim>\<open>dumpNestedTypes\<close> with fuel for the depth of its recursion: \<^const>\<open>None\<close> is
  "not returned within the fuel".\<close>

fun dumpNestedTypes :: "nat \<Rightarrow> externals \<Rightarrow> graph \<Rightarrow> node option \<Rightarrow> state \<Rightarrow> (error + state) option" where
  "dumpNestedTypes 0 x g declaration st = None"
| "dumpNestedTypes (Suc n) x g declaration st = dumpBody (dumpNestedTypes n x g) x g declaration st"

subsection \<open>Type-text linkifier\<close>

text \<open>\<^verbatim>\<open>sourceFile.transform\<close> with the visitor of \<^verbatim>\<open>getDisplayTypeWithLink\<close>: the
  children first, then the node; an identifier is replaced by the identifier whose text
  \<open>f\<close> gives, every other node is kept.\<close>

fun transform :: "(string \<Rightarrow> string) \<Rightarrow> tsNode \<Rightarrow> tsNode" where
  "transform f (Identifier text) = Identifier (f text)"
| "transform f (Syntax k children) = Syntax k (map (transform f) children)"

text \<open>The value of the variable \<^verbatim>\<open>link\<close> for one element of the set whose symbol name
  is \<open>typeName\<close>, lines 267 to 280.\<close>

definition linkOf ::
  "graph \<Rightarrow> schemaItem list \<Rightarrow> (linkArgs \<Rightarrow> string option) \<Rightarrow> ty \<Rightarrow> string \<Rightarrow> string option" where
  "linkOf g nested linkFormatter parsedNestedType name =
     (case find (\<lambda>item. itemTitle item = name) nested of
        Some matchedNestedType \<Rightarrow>
          linkFormatter \<lparr>typeName = name, jsDocTitle = None, fullPath = None\<rparr>
      | None \<Rightarrow>
          let declaration = getDeclarationBySymbol g (getSymbolByType g parsedNestedType);
              definitionPath = (case declaration of
                                  None \<Rightarrow> None
                                | Some d \<Rightarrow> Some (getFilePath (nodeOf g d)));
              title = declarationTitle g declaration
          in if truthyOpt title
             then linkFormatter \<lparr>typeName = name, jsDocTitle = title, fullPath = definitionPath\<rparr>
             else None)"

text \<open>The symbol name of an element of the set, \<^verbatim>\<open>getSymbolByType(t)?.getName()\<close>.\<close>

definition typeNameOf :: "graph \<Rightarrow> ty \<Rightarrow> string option" where
  "typeNameOf g t =
     (case getSymbolByType g t of
        None \<Rightarrow> None
      | Some s \<Rightarrow> Some (getSymName (symbolOf g s)))"

text \<open>The loop over the set for one identifier, lines 262 to 285, and after it line 287:
  the text of the node the visitor returns.\<close>

fun linkIdentifier ::
  "graph \<Rightarrow> schemaItem list \<Rightarrow> (linkArgs \<Rightarrow> string option) \<Rightarrow> string \<Rightarrow> ty list \<Rightarrow> string" where
  "linkIdentifier g nested linkFormatter nodeTypeText [] = nodeTypeText"
| "linkIdentifier g nested linkFormatter nodeTypeText (parsedNestedType # rest) =
     (if \<not> truthyOpt (typeNameOf g parsedNestedType)
         \<or> orEmpty (typeNameOf g parsedNestedType) \<noteq> nodeTypeText
      then linkIdentifier g nested linkFormatter nodeTypeText rest
      else
        let link = linkOf g nested linkFormatter parsedNestedType nodeTypeText
        in if truthyOpt link
           then ''['' @ nodeTypeText @ '']('' @ orEmpty link @ '')''
           else linkIdentifier g nested linkFormatter nodeTypeText rest)"

definition getDisplayTypeWithLink ::
  "externals \<Rightarrow> graph \<Rightarrow> string \<Rightarrow> schemaItem list \<Rightarrow> ty list \<Rightarrow> (linkArgs \<Rightarrow> string option)
     \<Rightarrow> string" where
  "getDisplayTypeWithLink x g originTypeText nested parsedNestedTypeSet linkFormatter =
     printSource x
       (transform (\<lambda>text. linkIdentifier g nested linkFormatter text parsedNestedTypeSet)
          (parseSource x (toSingleLine x (escape x originTypeText))))"

subsection \<open>Declaration schema builder\<close>

text \<open>
  The options of \<^verbatim>\<open>GenerateConfig\<close> that \<^verbatim>\<open>generateSchema\<close> reads, after its
  defaults are applied (lines 382 to 385 and 486). \<open>propertySorter\<close> is
  \<^verbatim>\<open>Array.prototype.sort\<close> with the caller's comparator, when there is one.
\<close>

record settings =
  defaultT :: "string \<rightharpoonup> defaultEntry"
  strictComment :: bool
  propertySorter :: "(propertyType list \<Rightarrow> propertyType list) option"
  linkFormatter :: "linkArgs \<Rightarrow> string option"
  strictDeclarationOrder :: bool

text \<open>The test of line 311.\<close>

definition hasDescriptionTag :: "tag list \<Rightarrow> bool" where
  "hasDescriptionTag tags =
     (find (\<lambda>t. truthy (tagName t) \<and> tagName t \<in> set TAG_NAMES_FOR_DESCRIPTION) tags \<noteq> None)"

definition symbolTags :: "graph \<Rightarrow> sym \<Rightarrow> bool \<Rightarrow> tag list" where
  "symbolTags g s strict =
     getSymbolTags (getJsDocTags (symbolOf g s)) (getDocumentationComment (symbolOf g s)) strict"

text \<open>
  \<^verbatim>\<open>getPropertySchema\<close>: the property, or \<^verbatim>\<open>null\<close>, and the state after the call.
  \<^verbatim>\<open>sym.getDeclarations()[0]\<close> is \<^verbatim>\<open>undefined\<close> on a symbol without declarations and
  line 303 calls \<^verbatim>\<open>getText\<close> on it, which raises.
\<close>

definition getPropertySchema ::
  "nat \<Rightarrow> externals \<Rightarrow> graph \<Rightarrow> settings \<Rightarrow> sym \<Rightarrow> state
     \<Rightarrow> (error + propertyType option \<times> state) option" where
  "getPropertySchema n x g cfg s st =
     (let name = getSymName (symbolOf g s)
      in case getDeclarations (symbolOf g s) of
           [] \<Rightarrow> Some (Inl TypeError)
         | declaration # _ \<Rightarrow>
             (case extractFromPropertyText (getText (nodeOf g declaration)) of
                None \<Rightarrow> Some (Inr (None, st))
              | Some extract \<Rightarrow>
                  let tags = symbolTags g s (strictComment cfg)
                  in if hasDescriptionTag tags then
                       (case dumpNestedTypes n x g (Some declaration) st of
                          None \<Rightarrow> None
                        | Some (Inl e) \<Rightarrow> Some (Inl e)
                        | Some (Inr st') \<Rightarrow>
                            Some (Inr (Some \<lparr>propName = name,
                                propType = getDisplayTypeWithLink x g (exType extract)
                                  (nestedTypeList st') (parsedNestedTypes st') (linkFormatter cfg),
                                propIsOptional = exIsOptional extract,
                                propTags = tags,
                                propInitializerText = None\<rparr>, st')))
                     else
                       (case defaultT cfg name of
                          Some entry \<Rightarrow>
                            Some (Inr (Some \<lparr>propName = name,
                                propType = defaultType entry,
                                propIsOptional = exIsOptional extract,
                                propTags = defaultTags entry,
                                propInitializerText = None\<rparr>, st))
                        | None \<Rightarrow> Some (Inr (None, st)))))"

text \<open>
  \<^verbatim>\<open>text.replace(/import\([^)]+\)\./g, '')\<close>. \<open>importMatch\<close> is the length of the match
  at the start of the text, if there is one: \<^verbatim>\<open>import(\<close>, the longest non-empty run of
  characters other than \<^verbatim>\<open>)\<close>, then \<^verbatim>\<open>).\<close> (a shorter run is followed by a character
  that is not \<^verbatim>\<open>)\<close>). \<open>replaceFrom k\<close> has \<open>k\<close> characters of a match left to drop.
\<close>

definition importMatch :: "string \<Rightarrow> nat option" where
  "importMatch text =
     (if take 7 text = ''import('' then
        let body = takeWhile (\<lambda>c. c \<noteq> CHR '')'') (drop 7 text);
            rest = dropWhile (\<lambda>c. c \<noteq> CHR '')'') (drop 7 text)
        in if body \<noteq> [] \<and> take 2 rest = '').'' then Some (7 + length body + 2) else None
      else None)"

fun replaceFrom :: "nat \<Rightarrow> string \<Rightarrow> string" where
  "replaceFrom k [] = []"
| "replaceFrom (Suc k) (c # cs) = replaceFrom k cs"
| "replaceFrom 0 (c # cs) =
     (case importMatch (c # cs) of
        Some m \<Rightarrow> replaceFrom (m - 1) cs
      | None \<Rightarrow> c # replaceFrom 0 cs)"

definition stripImports :: "string \<Rightarrow> string" where
  "stripImports text = replaceFrom 0 text"

text \<open>\<^verbatim>\<open>para.getInitializer()?.getText() || tags.find(...)?.value || null\<close>.\<close>

definition initializerTextOf :: "string option \<Rightarrow> tag list \<Rightarrow> string option" where
  "initializerTextOf initializer tags =
     (if truthyOpt initializer then initializer
      else
        (case find (\<lambda>t. tagName t = ''default'' \<or> tagName t = ''defaultValue'') tags of
           None \<Rightarrow> None
         | Some t \<Rightarrow> if truthy (tagValue t) then Some (tagValue t) else None))"

text \<open>The callback of \<^verbatim>\<open>getParameters().map\<close> in \<^verbatim>\<open>getFunctionSchema\<close>.\<close>

definition getParameterSchema ::
  "nat \<Rightarrow> externals \<Rightarrow> graph \<Rightarrow> settings \<Rightarrow> node \<Rightarrow> state \<Rightarrow> (error + propertyType \<times> state) option" where
  "getParameterSchema n x g cfg para st =
     (case dumpNestedTypes n x g (Some para) st of
        None \<Rightarrow> None
      | Some (Inl e) \<Rightarrow> Some (Inl e)
      | Some (Inr st') \<Rightarrow>
          let tags = symbolTags g (getSymbolOfNode (nodeOf g para)) (strictComment cfg)
          in Some (Inr (\<lparr>propName = getName (nodeOf g para),
                 propType = getDisplayTypeWithLink x g
                   (stripImports (getTypeText (typeOf g (getType (nodeOf g para)))))
                   (nestedTypeList st') (parsedNestedTypes st') (linkFormatter cfg),
                 propIsOptional = isOptional (nodeOf g para),
                 propTags = tags,
                 propInitializerText =
                   Some (initializerTextOf (getInitializerText (nodeOf g para)) tags)\<rparr>, st')))"

fun mapParameters ::
  "nat \<Rightarrow> externals \<Rightarrow> graph \<Rightarrow> settings \<Rightarrow> node list \<Rightarrow> state
     \<Rightarrow> (error + propertyType list \<times> state) option" where
  "mapParameters n x g cfg [] st = Some (Inr ([], st))"
| "mapParameters n x g cfg (para # paras) st =
     (case getParameterSchema n x g cfg para st of
        None \<Rightarrow> None
      | Some (Inl e) \<Rightarrow> Some (Inl e)
      | Some (Inr (p, st')) \<Rightarrow>
          (case mapParameters n x g cfg paras st' of
             None \<Rightarrow> None
           | Some (Inl e) \<Rightarrow> Some (Inl e)
           | Some (Inr (ps, st'')) \<Rightarrow> Some (Inr (p # ps, st''))))"

text \<open>\<^verbatim>\<open>getFunctionSchema\<close>: the fields \<^verbatim>\<open>params\<close> and \<^verbatim>\<open>returns\<close>, and the state.\<close>

definition getFunctionSchema ::
  "nat \<Rightarrow> externals \<Rightarrow> graph \<Rightarrow> settings \<Rightarrow> node \<Rightarrow> state
     \<Rightarrow> (error + (propertyType list \<times> string) \<times> state) option" where
  "getFunctionSchema n x g cfg declaration st =
     (case mapParameters n x g cfg (getParameters (nodeOf g declaration)) st of
        None \<Rightarrow> None
      | Some (Inl e) \<Rightarrow> Some (Inl e)
      | Some (Inr (params, st')) \<Rightarrow>
          Some (Inr ((params, getReturnTypeText (nodeOf g declaration)), st')))"

text \<open>The two loops \<^verbatim>\<open>forEach((a) => { ...; schema && data.push(schema) })\<close> of
  \<^verbatim>\<open>generateSchema\<close> over property symbols, on the array \<^verbatim>\<open>data\<close> and the state.\<close>

fun pushProperties ::
  "nat \<Rightarrow> externals \<Rightarrow> graph \<Rightarrow> settings \<Rightarrow> sym list \<Rightarrow> propertyType list \<Rightarrow> state
     \<Rightarrow> (error + propertyType list \<times> state) option" where
  "pushProperties n x g cfg [] data st = Some (Inr (data, st))"
| "pushProperties n x g cfg (a # as) data st =
     (case getPropertySchema n x g cfg a st of
        None \<Rightarrow> None
      | Some (Inl e) \<Rightarrow> Some (Inl e)
      | Some (Inr (None, st')) \<Rightarrow> pushProperties n x g cfg as data st'
      | Some (Inr (Some p, st')) \<Rightarrow> pushProperties n x g cfg as (data @ [p]) st')"

subsection \<open>Schema assembler\<close>

text \<open>A ts-morph \<^verbatim>\<open>SourceFile\<close>: its top-level declarations, by kind.\<close>

record sourceFile =
  getInterfaces :: "node list"
  getTypeAliases :: "node list"
  getFunctions :: "node list"

text \<open>The variables the callback of the main loop updates: \<^verbatim>\<open>schemaList\<close>,
  \<^verbatim>\<open>schemaMap\<close>, and the state shared with the resolver.\<close>

record assembly =
  schemaList :: "schemaItem list"
  schemaMap :: "string \<rightharpoonup> schema"
  resolver :: state

definition applySorter :: "settings \<Rightarrow> propertyType list \<Rightarrow> propertyType list" where
  "applySorter cfg ps = (case propertySorter cfg of None \<Rightarrow> ps | Some sorter \<Rightarrow> sorter ps)"

text \<open>The variable \<^verbatim>\<open>typeNode\<close>, lines 408 to 413.\<close>

definition typeNodeOf :: "graph \<Rightarrow> node \<Rightarrow> node option" where
  "typeNodeOf g declaration =
     (if getKindName (nodeOf g declaration) = FunctionDeclaration then Some declaration
      else if getKindName (nodeOf g declaration) = TypeAliasDeclaration
      then getTypeNode (nodeOf g declaration)
      else None)"

text \<open>Lines 407 to 468: the schema of one titled declaration.\<close>

definition buildSchema ::
  "nat \<Rightarrow> externals \<Rightarrow> graph \<Rightarrow> settings \<Rightarrow> node \<Rightarrow> tag list \<Rightarrow> state
     \<Rightarrow> (error + schema \<times> state) option" where
  "buildSchema n x g cfg declaration tags st =
     (case (case typeNodeOf g declaration of
              None \<Rightarrow> None
            | Some typeNode \<Rightarrow>
                if getKindName (nodeOf g typeNode) \<in> {FunctionDeclaration, FunctionType}
                then Some typeNode else None) of
        Some typeNode \<Rightarrow>
          (case getFunctionSchema n x g cfg typeNode st of
             None \<Rightarrow> None
           | Some (Inl e) \<Rightarrow> Some (Inl e)
           | Some (Inr ((params, returns), st')) \<Rightarrow>
               Some (Inr (FunctionSchema tags (applySorter cfg params) returns, st')))
      | None \<Rightarrow>
          if getKindName (nodeOf g declaration) = InterfaceDeclaration
             \<and> find (\<lambda>t. tagName t = ''notExtends'') tags \<noteq> None
          then
            (case getProperties (nodeOf g declaration) of
               None \<Rightarrow> Some (Inl TypeError)
             | Some props \<Rightarrow>
                 (case pushProperties n x g cfg props [] st of
                    None \<Rightarrow> None
                  | Some (Inl e) \<Rightarrow> Some (Inl e)
                  | Some (Inr (data, st')) \<Rightarrow>
                      Some (Inr (InterfaceSchema tags (applySorter cfg data), st'))))
          else
            (case pushProperties n x g cfg
                    (getPropertiesOfType (typeOf g (getType (nodeOf g declaration)))) [] st of
               None \<Rightarrow> None
             | Some (Inl e) \<Rightarrow> Some (Inl e)
             | Some (Inr (data, st')) \<Rightarrow>
                 Some (Inr (InterfaceSchema tags (applySorter cfg data), st'))))"

text \<open>The callback of the main loop, lines 396 to 472. The declarations of a source file
  have \<^verbatim>\<open>getJsDocs\<close>; calling it on a node without the method raises.\<close>

definition processDeclaration ::
  "nat \<Rightarrow> externals \<Rightarrow> graph \<Rightarrow> settings \<Rightarrow> node \<Rightarrow> assembly \<Rightarrow> (error + assembly) option" where
  "processDeclaration n x g cfg declaration a =
     (case getJsDocs (nodeOf g declaration) of
        None \<Rightarrow> Some (Inl TypeError)
      | Some docs \<Rightarrow>
          (case getDeclarationTags docs of
             (title, tags) \<Rightarrow>
               if \<not> truthyOpt title then Some (Inr a)
               else
                 (case buildSchema n x g cfg declaration tags (resolver a) of
                    None \<Rightarrow> None
                  | Some (Inl e) \<Rightarrow> Some (Inl e)
                  | Some (Inr (schema, st')) \<Rightarrow>
                      Some (Inr \<lparr>schemaList = schemaList a @
                                  [\<lparr>itemTitle = orEmpty title, itemSchema = schema\<rparr>],
                                schemaMap = (schemaMap a)(orEmpty title \<mapsto> schema),
                                resolver = st'\<rparr>))))"

text \<open>
  \<^verbatim>\<open>GenerateConfig\<close> as the caller gives it. \<^verbatim>\<open>Array.prototype.sort\<close> is stable
  (ECMAScript 2019), so the sort of line 393 by \<^verbatim>\<open>getStartLineNumber\<close> is
  \<^const>\<open>sort_key\<close>.
\<close>

record project =
  getSourceFile :: "string \<Rightarrow> sourceFile option"
  getTypeChecker :: graph

record generateConfig =
  cfgSourceFilesPaths :: "string list option"
  cfgProject :: "project option"
  cfgDefaultTypeMap :: "(string \<rightharpoonup> defaultEntry) option"
  cfgStrictComment :: bool
  cfgPropertySorter :: "(propertyType list \<Rightarrow> propertyType list) option"
  cfgLinkFormatter :: "(linkArgs \<Rightarrow> string option) option"
  cfgStrictDeclarationOrder :: bool

definition settingsOf :: "externals \<Rightarrow> generateConfig option \<Rightarrow> settings" where
  "settingsOf x config =
     (case config of
        None \<Rightarrow> \<lparr>defaultT = defaultTypeMapConst x, strictComment = False, propertySorter = None,
                  linkFormatter = defaultLinkFormatter x, strictDeclarationOrder = False\<rparr>
      | Some c \<Rightarrow>
          \<lparr>defaultT = (case cfgDefaultTypeMap c of None \<Rightarrow> defaultTypeMapConst x | Some m \<Rightarrow> m),
           strictComment = cfgStrictComment c,
           propertySorter = cfgPropertySorter c,
           linkFormatter = (case cfgLinkFormatter c of None \<Rightarrow> defaultLinkFormatter x | Some f \<Rightarrow> f),
           strictDeclarationOrder = cfgStrictDeclarationOrder c\<rparr>)"

definition emptyState :: state where
  "emptyState = \<lparr>nestedTypeList = [], parsedNestedTypes = [], emittedFor = []\<rparr>"

definition emptyAssembly :: assembly where
  "emptyAssembly = \<lparr>schemaList = [], schemaMap = Map.empty, resolver = emptyState\<rparr>"

text \<open>The declarations in the order the main loop takes them, lines 392 to 395.\<close>

definition sortedDeclarations :: "graph \<Rightarrow> sourceFile \<Rightarrow> node list" where
  "sortedDeclarations g sf =
     sort_key (\<lambda>d. getStartLineNumber (nodeOf g d))
       (getInterfaces sf @ getTypeAliases sf @ getFunctions sf)"

text \<open>The \<^verbatim>\<open>reduce\<close> of lines 480 to 483.\<close>

definition nestedMap :: "schemaItem list \<Rightarrow> (string \<rightharpoonup> schema)" where
  "nestedMap items = foldl (\<lambda>result item. result(itemTitle item \<mapsto> itemSchema item)) Map.empty items"

text \<open>Lines 474 to 486.\<close>

definition assemble :: "settings \<Rightarrow> assembly \<Rightarrow> schemaOutput" where
  "assemble cfg a =
     (let nested = nestedTypeList (resolver a);
          outList = (if length nested > 0 then schemaList a @ nested else schemaList a);
          outMap = (if length nested > 0 then schemaMap a ++ nestedMap nested else schemaMap a)
      in if strictDeclarationOrder cfg then SchemaList outList else SchemaMap outMap)"

definition generateSchema ::
  "nat \<Rightarrow> externals \<Rightarrow> graph \<Rightarrow> sourceFile \<Rightarrow> generateConfig option \<Rightarrow> (error + schemaOutput) option" where
  "generateSchema n x g sf config =
     (let cfg = settingsOf x config
      in case forEachM (processDeclaration n x g cfg) (sortedDeclarations g sf) emptyAssembly of
           None \<Rightarrow> None
         | Some (Inl e) \<Rightarrow> Some (Inl e)
         | Some (Inr a) \<Rightarrow> Some (Inr (assemble cfg a)))"

text \<open>
  \<^verbatim>\<open>generate\<close>. \<open>internalProject\<close> is the module's own project and
  \<open>addSourceFilesAtPaths\<close> the project after ts-morph has read the files of the globs.
  The result is \<open>Inr None\<close> for \<^verbatim>\<open>undefined\<close>.
\<close>

record host =
  internalProject :: project
  addSourceFilesAtPaths :: "string list \<Rightarrow> project \<Rightarrow> project"

definition projectOf :: "host \<Rightarrow> generateConfig option \<Rightarrow> project" where
  "projectOf h config =
     (let project = (case config of
                       None \<Rightarrow> internalProject h
                     | Some c \<Rightarrow> (case cfgProject c of None \<Rightarrow> internalProject h | Some p \<Rightarrow> p))
      in case config of
           None \<Rightarrow> project
         | Some c \<Rightarrow>
             (case cfgSourceFilesPaths c of
                None \<Rightarrow> project
              | Some paths \<Rightarrow> addSourceFilesAtPaths h paths project))"

definition generate ::
  "nat \<Rightarrow> externals \<Rightarrow> host \<Rightarrow> string \<Rightarrow> generateConfig option
     \<Rightarrow> (error + schemaOutput option) option" where
  "generate n x h file config =
     (let project = projectOf h config
      in case getSourceFile project file of
           None \<Rightarrow> Some (Inr None)
         | Some sourceFile \<Rightarrow>
             (case generateSchema n x (getTypeChecker project) sourceFile config of
                None \<Rightarrow> None
              | Some (Inl e) \<Rightarrow> Some (Inl e)
              | Some (Inr out) \<Rightarrow> Some (Inr (Some out))))"

subsection \<open>Notions the properties below are stated with\<close>

text \<open>The tags named \<^verbatim>\<open>title\<close> among the raw tags of a block.\<close>

definition titleTags :: "jsDocTag list \<Rightarrow> jsDocTag list" where
  "titleTags ts = filter (\<lambda>t. getTagName t = ''title'') ts"



text \<open>
  What one run of the resolver adds: the entries \<open>items\<close> appended to
  \<open>nestedTypeList\<close>, pushed for the types \<open>types\<close> (entry by entry: the title of an
  entry is the symbol name of its type). The types are pairwise distinct, none of them
  was in the set before the run and all of them are in it after.
\<close>

definition newEntries :: "graph \<Rightarrow> state \<Rightarrow> state \<Rightarrow> schemaItem list \<Rightarrow> ty list \<Rightarrow> bool" where
  "newEntries g st st' items types =
     (nestedTypeList st' = nestedTypeList st @ items
      \<and> emittedFor st' = emittedFor st @ types
      \<and> map itemTitle items = map (\<lambda>t. orEmpty (typeNameOf g t)) types
      \<and> distinct types
      \<and> set types \<inter> set (parsedNestedTypes st) = {}
      \<and> set types \<subseteq> set (parsedNestedTypes st'))"

text \<open>
  A state \<open>st'\<close> that a run started in \<open>st\<close> can end in: the set has only grown, it has
  no element twice if it had none twice, and the new entries are as above.
\<close>

definition continues :: "graph \<Rightarrow> state \<Rightarrow> state \<Rightarrow> bool" where
  "continues g st st' =
     (set (parsedNestedTypes st) \<subseteq> set (parsedNestedTypes st')
      \<and> (distinct (parsedNestedTypes st) \<longrightarrow> distinct (parsedNestedTypes st'))
      \<and> (\<exists>items types. newEntries g st st' items types))"

text \<open>The number of types of \<open>U\<close> that are not yet in the set.\<close>

definition unvisited :: "ty set \<Rightarrow> state \<Rightarrow> nat" where
  "unvisited U st = card (U - set (parsedNestedTypes st))"

text \<open>A call that returns (normally or by raising), normally only in a state that
  continues \<open>st\<close>.\<close>

definition returnsFrom :: "graph \<Rightarrow> state \<Rightarrow> (error + state) option \<Rightarrow> bool" where
  "returnsFrom g st res = (\<exists>r. res = Some r \<and> (\<forall>st'. r = Inr st' \<longrightarrow> continues g st st'))"

subsection \<open>Worked examples\<close>

text \<open>A node, a type and a symbol with nothing on them, and externals that leave texts
  as they are, with a scratch parser that splits a text into identifiers (runs of word
  characters) and single other characters.\<close>

definition plainNode :: nodeInfo where
  "plainNode = \<lparr>getType = 0, forEachDescendant = [], isTypeNode = False, getJsDocs = None,
     getFilePath = ''/project/src/demo.ts'', getKindName = OtherKind, getText = [],
     printText = [], getProperties = None, getStartLineNumber = 1, getTypeNode = None,
     getParameters = [], getReturnTypeText = [], getSymbolOfNode = 0, getName = [],
     isOptional = False, getInitializerText = None\<rparr>"

definition plainType :: typeInfo where
  "plainType = \<lparr>getAliasSymbol = None, getSymbol = None, isInterface = False, isEnum = False,
     isUnion = False, isIntersection = False, getUnionTypes = [], getIntersectionTypes = [],
     getTypeText = [], getPropertiesOfType = []\<rparr>"

definition plainSymbol :: symbolInfo where
  "plainSymbol = \<lparr>getSymName = [], getDeclarations = [], getJsDocTags = [],
     getDocumentationComment = []\<rparr>"

fun scanTokens :: "string \<Rightarrow> string \<Rightarrow> tsNode list" where
  "scanTokens word [] = (if word = [] then [] else [Identifier word])"
| "scanTokens word (c # cs) =
     (if isWordChar c then scanTokens (word @ [c]) cs
      else (if word = [] then [] else [Identifier word]) @ Syntax (of_char c) [] # scanTokens [] cs)"

fun printTokens :: "tsNode \<Rightarrow> string" where
  "printTokens (Identifier text) = text"
| "printTokens (Syntax k children) =
     (if k = 0 then concat (map printTokens children) else [char_of k])"

definition plainExternals :: externals where
  "plainExternals = \<lparr>format = (\<lambda>s. s), toSingleLine = (\<lambda>s. s), escape = (\<lambda>s. s),
     parseSource = (\<lambda>s. Syntax 0 (scanTokens [] s)), printSource = printTokens,
     defaultTypeMapConst = Map.empty,
     defaultLinkFormatter = (\<lambda>a. Some (''#'' @ typeName a))\<rparr>"

text \<open>
  Two interfaces that refer to each other, and a documented property of type \<^verbatim>\<open>A\<close>:
  \<^verbatim>\<open>interface A { b: B }  interface B { a: A }  interface Doc { /** @zh x */ p: A }\<close>.
  Nodes: 1 is the property \<^verbatim>\<open>p: A\<close> and 2 its type reference; 3 is interface \<^verbatim>\<open>A\<close>,
  4 its property \<^verbatim>\<open>b: B\<close> and 5 the type reference of that; 6 is interface \<^verbatim>\<open>B\<close>,
  7 its property \<^verbatim>\<open>a: A\<close> and 8 the type reference of that. Types: 1 is \<^verbatim>\<open>A\<close>,
  2 is \<^verbatim>\<open>B\<close>. Symbols: 1 \<^verbatim>\<open>A\<close>, 2 \<^verbatim>\<open>B\<close>, 3 \<^verbatim>\<open>b\<close>, 4 \<^verbatim>\<open>a\<close>, 5 \<^verbatim>\<open>p\<close>.
\<close>

definition cyclicNodes :: "node \<Rightarrow> nodeInfo" where
  "cyclicNodes =
     (\<lambda>_. plainNode)
     (1 := plainNode\<lparr>getType := 1, forEachDescendant := [2], getText := ''p: A;'', getSymbolOfNode := 5\<rparr>,
      2 := plainNode\<lparr>getType := 1, isTypeNode := True, getText := ''A''\<rparr>,
      3 := plainNode\<lparr>getType := 1, forEachDescendant := [4, 5], getJsDocs := Some [],
             getKindName := InterfaceDeclaration, printText := ''interface A { b: B }'',
             getProperties := Some [3]\<rparr>,
      4 := plainNode\<lparr>getType := 2, forEachDescendant := [5], getText := ''b: B'', getSymbolOfNode := 3\<rparr>,
      5 := plainNode\<lparr>getType := 2, isTypeNode := True, getText := ''B''\<rparr>,
      6 := plainNode\<lparr>getType := 2, forEachDescendant := [7, 8], getJsDocs := Some [],
             getKindName := InterfaceDeclaration, printText := ''interface B { a: A }'',
             getProperties := Some [4]\<rparr>,
      7 := plainNode\<lparr>getType := 1, forEachDescendant := [8], getText := ''a: A'', getSymbolOfNode := 4\<rparr>,
      8 := plainNode\<lparr>getType := 1, isTypeNode := True, getText := ''A''\<rparr>)"

definition cyclicTypes :: "ty \<Rightarrow> typeInfo" where
  "cyclicTypes =
     (\<lambda>_. plainType)
     (1 := plainType\<lparr>getSymbol := Some 1, isInterface := True, getTypeText := ''A'',
             getPropertiesOfType := [3]\<rparr>,
      2 := plainType\<lparr>getSymbol := Some 2, isInterface := True, getTypeText := ''B'',
             getPropertiesOfType := [4]\<rparr>)"

definition cyclicSymbols :: "sym \<Rightarrow> symbolInfo" where
  "cyclicSymbols =
     (\<lambda>_. plainSymbol)
     (1 := plainSymbol\<lparr>getSymName := ''A'', getDeclarations := [3]\<rparr>,
      2 := plainSymbol\<lparr>getSymName := ''B'', getDeclarations := [6]\<rparr>,
      3 := plainSymbol\<lparr>getSymName := ''b'', getDeclarations := [4]\<rparr>,
      4 := plainSymbol\<lparr>getSymName := ''a'', getDeclarations := [7]\<rparr>,
      5 := plainSymbol\<lparr>getSymName := ''p'', getDeclarations := [1],
             getJsDocTags := [\<lparr>tagInfoName = ''zh'', tagInfoText = Some ''x''\<rparr>]\<rparr>)"

definition cyclicGraph :: graph where
  "cyclicGraph = \<lparr>nodeOf = cyclicNodes, typeOf = cyclicTypes, symbolOf = cyclicSymbols\<rparr>"

text \<open>
  A project whose entry files exercise the assembler. The declarations:
  \<^item> node 10, line 5: \<^verbatim>\<open>/** @title Five */ interface Five\<close> with the properties
    \<^verbatim>\<open>'data-id': string;\<close> (symbol 11), \<^verbatim>\<open>style: string;\<close> (symbol 12),
    \<^verbatim>\<open>foo: number;\<close> (symbol 13) and \<^verbatim>\<open>/** @zh x */ q?: Ext | string;\<close> (symbol 14,
    whose type reference \<^verbatim>\<open>Ext\<close> is node 16);
  \<^item> node 17: \<^verbatim>\<open>/** @title ExtDoc */ interface Ext\<close> of a library under
    \<^verbatim>\<open>node_modules\<close> (type 3, symbol 30);
  \<^item> node 25, line 1: \<^verbatim>\<open>/** @title One */ type One = { style: string }\<close>;
  \<^item> node 20, line 3: \<^verbatim>\<open>/** @title Three */ function three(x: Foo): Foo\<close>, where
    \<^verbatim>\<open>Foo\<close> (type 4, symbol 40, declared by node 23) is imported, so the type checker
    prints it as \<^verbatim>\<open>import("/p/a").Foo\<close>; the parameter is node 21;
  \<^item> node 31, line 6: \<^verbatim>\<open>/** @title Five @notExtends */ interface Other\<close> with the
    property \<^verbatim>\<open>foo\<close>;
  \<^item> node 32, line 7: \<^verbatim>\<open>/** @title Foo */ interface Titled {}\<close>;
  \<^item> node 33, line 9: \<^verbatim>\<open>/** @title Rec */ type Rec = Record<'a', string>\<close>, whose type
    (type 6) has the property \<^verbatim>\<open>a\<close> (symbol 60) of a mapped type, a symbol without
    declarations.
\<close>

definition importedFoo :: string where
  \<open>importedFoo = ''import("/p/a").Foo''\<close>

definition titleDoc :: "string \<Rightarrow> jsDocTag list list option" where
  "titleDoc t = Some [[\<lparr>getTagName = ''title'', getCommentText = Some t\<rparr>]]"

definition demoNodes :: "node \<Rightarrow> nodeInfo" where
  "demoNodes =
     (\<lambda>_. plainNode)
     (10 := plainNode\<lparr>getType := 8, forEachDescendant := [11, 12, 13, 14, 16], getJsDocs := titleDoc ''Five'',
              getKindName := InterfaceDeclaration, getProperties := Some [11, 12, 13, 14],
              getStartLineNumber := 5\<rparr>,
      11 := plainNode\<lparr>getText := [CHR 0x27] @ ''data-id'' @ [CHR 0x27] @ '': string;'',
              getJsDocs := Some [], getSymbolOfNode := 11\<rparr>,
      12 := plainNode\<lparr>getText := ''style: string;'', getJsDocs := Some [], getSymbolOfNode := 12\<rparr>,
      13 := plainNode\<lparr>getText := ''foo: number;'', getJsDocs := Some [], getSymbolOfNode := 13\<rparr>,
      14 := plainNode\<lparr>getType := 5, forEachDescendant := [16], getText := ''q?: Ext | string;'',
              getJsDocs := Some [[\<lparr>getTagName = ''zh'', getCommentText = Some ''x''\<rparr>]],
              getSymbolOfNode := 14\<rparr>,
      16 := plainNode\<lparr>getType := 3, isTypeNode := True, getText := ''Ext''\<rparr>,
      17 := plainNode\<lparr>getType := 3, getJsDocs := titleDoc ''ExtDoc'',
              getFilePath := ''/project/node_modules/lib/index.d.ts'',
              getKindName := InterfaceDeclaration, printText := ''interface Ext {}'',
              getProperties := Some []\<rparr>,
      20 := plainNode\<lparr>forEachDescendant := [21, 22], getJsDocs := titleDoc ''Three'',
              getKindName := FunctionDeclaration, getStartLineNumber := 3, getParameters := [21],
              getReturnTypeText := importedFoo\<rparr>,
      21 := plainNode\<lparr>getType := 4, forEachDescendant := [22], getText := ''x: Foo'',
              getSymbolOfNode := 41, getName := ''x''\<rparr>,
      22 := plainNode\<lparr>getType := 4, isTypeNode := True, getText := ''Foo''\<rparr>,
      23 := plainNode\<lparr>getType := 4, getJsDocs := Some [], getFilePath := ''/p/a.ts'',
              getKindName := InterfaceDeclaration, printText := ''interface Foo {}'',
              getProperties := Some []\<rparr>,
      25 := plainNode\<lparr>getType := 7, getJsDocs := titleDoc ''One'', getKindName := TypeAliasDeclaration,
              getStartLineNumber := 1, getTypeNode := Some 26\<rparr>,
      26 := plainNode\<lparr>getType := 7, isTypeNode := True\<rparr>,
      31 := plainNode\<lparr>getType := 9,
              getJsDocs := Some [[\<lparr>getTagName = ''title'', getCommentText = Some ''Five''\<rparr>,
                                 \<lparr>getTagName = ''notExtends'', getCommentText = None\<rparr>]],
              getKindName := InterfaceDeclaration, getProperties := Some [13],
              getStartLineNumber := 6\<rparr>,
      32 := plainNode\<lparr>getType := 10, getJsDocs := titleDoc ''Foo'',
              getKindName := InterfaceDeclaration, getProperties := Some [],
              getStartLineNumber := 7\<rparr>,
      33 := plainNode\<lparr>getType := 6, getJsDocs := titleDoc ''Rec'', getKindName := TypeAliasDeclaration,
              getStartLineNumber := 9, getTypeNode := Some 34\<rparr>,
      34 := plainNode\<lparr>getType := 6, isTypeNode := True\<rparr>)"

definition demoTypes :: "ty \<Rightarrow> typeInfo" where
  "demoTypes =
     (\<lambda>_. plainType)
     (3 := plainType\<lparr>getSymbol := Some 30, isInterface := True, getTypeText := ''Ext''\<rparr>,
      4 := plainType\<lparr>getSymbol := Some 40, isInterface := True,
             getTypeText := importedFoo\<rparr>,
      5 := plainType\<lparr>isUnion := True, getUnionTypes := [3], getTypeText := ''Ext | string''\<rparr>,
      6 := plainType\<lparr>getAliasSymbol := Some 61, getPropertiesOfType := [60]\<rparr>,
      7 := plainType\<lparr>getAliasSymbol := Some 62, getPropertiesOfType := [12]\<rparr>,
      8 := plainType\<lparr>getSymbol := Some 63, isInterface := True,
             getPropertiesOfType := [11, 12, 13, 14]\<rparr>,
      9 := plainType\<lparr>getSymbol := Some 64, isInterface := True, getPropertiesOfType := [13]\<rparr>,
      10 := plainType\<lparr>getSymbol := Some 65, isInterface := True\<rparr>)"

definition demoSymbols :: "sym \<Rightarrow> symbolInfo" where
  "demoSymbols =
     (\<lambda>_. plainSymbol)
     (11 := plainSymbol\<lparr>getSymName := ''data-id'', getDeclarations := [11]\<rparr>,
      12 := plainSymbol\<lparr>getSymName := ''style'', getDeclarations := [12]\<rparr>,
      13 := plainSymbol\<lparr>getSymName := ''foo'', getDeclarations := [13]\<rparr>,
      14 := plainSymbol\<lparr>getSymName := ''q'', getDeclarations := [14],
              getJsDocTags := [\<lparr>tagInfoName = ''zh'', tagInfoText = Some ''x''\<rparr>]\<rparr>,
      30 := plainSymbol\<lparr>getSymName := ''Ext'', getDeclarations := [17]\<rparr>,
      40 := plainSymbol\<lparr>getSymName := ''Foo'', getDeclarations := [23]\<rparr>,
      41 := plainSymbol\<lparr>getSymName := ''x'', getDeclarations := [21]\<rparr>,
      60 := plainSymbol\<lparr>getSymName := ''a''\<rparr>,
      61 := plainSymbol\<lparr>getSymName := ''Rec'', getDeclarations := [33]\<rparr>,
      62 := plainSymbol\<lparr>getSymName := ''One'', getDeclarations := [25]\<rparr>,
      63 := plainSymbol\<lparr>getSymName := ''Five'', getDeclarations := [10]\<rparr>,
      64 := plainSymbol\<lparr>getSymName := ''Other'', getDeclarations := [31]\<rparr>,
      65 := plainSymbol\<lparr>getSymName := ''Titled'', getDeclarations := [32]\<rparr>)"

definition demoGraph :: graph where
  "demoGraph = \<lparr>nodeOf = demoNodes, typeOf = demoTypes, symbolOf = demoSymbols\<rparr>"

definition demoDefaults :: "string \<rightharpoonup> defaultEntry" where
  "demoDefaults =
     [''style'' \<mapsto> \<lparr>defaultType = ''CSSProperties'',
                     defaultTags = [\<lparr>tagName = ''en'', tagValue = ''Additional style''\<rparr>]\<rparr>,
      ''data-id'' \<mapsto> \<lparr>defaultType = ''string'', defaultTags = []\<rparr>]"

definition demoSettings :: settings where
  "demoSettings = \<lparr>defaultT = demoDefaults, strictComment = False, propertySorter = None,
     linkFormatter = defaultLinkFormatter plainExternals, strictDeclarationOrder = False\<rparr>"

definition demoConfig :: generateConfig where
  "demoConfig = \<lparr>cfgSourceFilesPaths = None, cfgProject = None,
     cfgDefaultTypeMap = Some demoDefaults, cfgStrictComment = False, cfgPropertySorter = None,
     cfgLinkFormatter = None, cfgStrictDeclarationOrder = False\<rparr>"

text \<open>Three entry files over these declarations: the declarations of lines 5, 1 and 3;
  declarations with equal titles; and the alias of the mapped type.\<close>

definition orderFile :: sourceFile where
  "orderFile = \<lparr>getInterfaces = [10], getTypeAliases = [25], getFunctions = [20]\<rparr>"

definition duplicateFile :: sourceFile where
  "duplicateFile = \<lparr>getInterfaces = [10, 31, 32], getTypeAliases = [], getFunctions = [20]\<rparr>"

definition mappedFile :: sourceFile where
  "mappedFile = \<lparr>getInterfaces = [], getTypeAliases = [33], getFunctions = []\<rparr>"

definition demoProject :: project where
  "demoProject =
     \<lparr>getSourceFile = [''/project/src/order.ts'' \<mapsto> orderFile,
                        ''/project/src/duplicate.ts'' \<mapsto> duplicateFile,
                        ''/project/src/mapped.ts'' \<mapsto> mappedFile],
      getTypeChecker = demoGraph\<rparr>"

definition demoHost :: host where
  "demoHost = \<lparr>internalProject = demoProject, addSourceFilesAtPaths = (\<lambda>paths p. p)\<rparr>"

text \<open>
  For one identifier of a type text: the elements of the set whose symbol name is the
  identifier's text, in insertion order, and the non-empty links that the variable
  \<^verbatim>\<open>link\<close> takes for them, in that order.
\<close>

definition candidates :: "graph \<Rightarrow> string \<Rightarrow> ty list \<Rightarrow> ty list" where
  "candidates g text parsed = filter (\<lambda>t. truthy text \<and> typeNameOf g t = Some text) parsed"

definition links ::
  "graph \<Rightarrow> schemaItem list \<Rightarrow> (linkArgs \<Rightarrow> string option) \<Rightarrow> string \<Rightarrow> ty list \<Rightarrow> string list" where
  "links g nested lf text parsed =
     filter truthy (map (\<lambda>t. orEmpty (linkOf g nested lf t text)) (candidates g text parsed))"

text \<open>A type from an external-library path: its backing declaration is in a file under
  \<^verbatim>\<open>/node_modules/\<close>.\<close>

definition externalType :: "graph \<Rightarrow> ty \<Rightarrow> bool" where
  "externalType g t =
     (case getDeclarationBySymbol g (getSymbolByType g t) of
        None \<Rightarrow> False
      | Some d \<Rightarrow> stringIncludes (getFilePath (nodeOf g d)) ''/node_modules/'')"

text \<open>
  For the assembler: the schema that the last entry with a given title of a list has; the
  configuration with nothing set, and a configuration with strict-order output requested
  and everything else as it is; the schemas of nested types, and a state whose
  nested-type list holds only those.
\<close>

definition lastSchema :: "string \<Rightarrow> schemaItem list \<Rightarrow> schema option" where
  "lastSchema t items =
     (case filter (\<lambda>i. itemTitle i = t) items of
        [] \<Rightarrow> None
      | f # fs \<Rightarrow> Some (itemSchema (last (f # fs))))"

definition noConfig :: generateConfig where
  "noConfig = \<lparr>cfgSourceFilesPaths = None, cfgProject = None, cfgDefaultTypeMap = None,
     cfgStrictComment = False, cfgPropertySorter = None, cfgLinkFormatter = None,
     cfgStrictDeclarationOrder = False\<rparr>"

definition withStrictOrder :: "generateConfig option \<Rightarrow> generateConfig option" where
  "withStrictOrder config =
     Some ((case config of None \<Rightarrow> noConfig | Some c \<Rightarrow> c)\<lparr>cfgStrictDeclarationOrder := True\<rparr>)"

fun isNestedType :: "schema \<Rightarrow> bool" where
  "isNestedType (NestedTypeSchema tags data) = True"
| "isNestedType (InterfaceSchema tags data) = False"
| "isNestedType (FunctionSchema tags params r) = False"

definition nestedOnly :: "state \<Rightarrow> bool" where
  "nestedOnly st = list_all (\<lambda>i. isNestedType (itemSchema i)) (nestedTypeList st)"

text \<open>The start line of a declaration, and the title of a top-level declaration.\<close>

definition startLine :: "graph \<Rightarrow> node \<Rightarrow> int" where
  "startLine g d = getStartLineNumber (nodeOf g d)"

definition titleOf :: "graph \<Rightarrow> node \<Rightarrow> string" where
  "titleOf g d = orEmpty (declarationTitle g (Some d))"

definition titled :: "graph \<Rightarrow> node \<Rightarrow> bool" where
  "titled g d = truthyOpt (declarationTitle g (Some d))"


section \<open>Verified properties\<close>

subsection \<open>Tag parser\<close>

lemma declarationTagLoop_title:
  "fst (declarationTagLoop ts (title, tags)) =
     (case titleTags ts of
        [] \<Rightarrow> title
      | f # fs \<Rightarrow> Some (orEmpty (getCommentText (last (f # fs)))))"
proof (induction ts arbitrary: title tags)
  case Nil
  then show ?case by (simp add: titleTags_def)
next
  case (Cons t ts)
  show ?case
    by (cases "filter (\<lambda>t. getTagName t = ''title'') ts")
      (simp_all add: Cons.IH titleTags_def Let_def)
qed

lemma declarationTagLoop_tags:
  "snd (declarationTagLoop ts (title, tags)) =
     tags @ map (\<lambda>t. \<lparr>tagName = getTagName t, tagValue = orEmpty (getCommentText t)\<rparr>) ts"
  by (induction ts arbitrary: title tags) (simp_all add: Let_def)

text \<open>
  Claim C2, as the code has it. When the first documentation block of a declaration has
  several tags named \<^verbatim>\<open>title\<close>, the loop of \<^verbatim>\<open>getDeclarationTags\<close> assigns the
  variable at each of them, so the title it returns is the value of the last such tag
  (the empty string when that tag has no comment text), and there is no title when the
  block has no such tag. A declaration has at most one effective title: the last
  occurrence wins.
\<close>

theorem getDeclarationTags_last_title_wins:
  "fst (getDeclarationTags docs) =
     (case titleTags (rawTags docs) of
        [] \<Rightarrow> None
      | f # fs \<Rightarrow> Some (orEmpty (getCommentText (last (f # fs)))))"
  by (simp add: getDeclarationTags_def declarationTagLoop_title)

text \<open>Claim C2 as the specification states it (the first title tag wins) fails on a block
  with the two tags \<^verbatim>\<open>@title A\<close> and \<^verbatim>\<open>@title B\<close>: the title is \<^verbatim>\<open>B\<close>.\<close>

theorem getDeclarationTags_first_title_counterexample:
  "fst (getDeclarationTags
      [[\<lparr>getTagName = ''title'', getCommentText = Some ''A''\<rparr>,
        \<lparr>getTagName = ''title'', getCommentText = Some ''B''\<rparr>]]) = Some ''B''
   \<and> fst (getDeclarationTags
      [[\<lparr>getTagName = ''title'', getCommentText = Some ''A''\<rparr>,
        \<lparr>getTagName = ''title'', getCommentText = Some ''B''\<rparr>]]) \<noteq> Some ''A''"
  by (simp add: getDeclarationTags_def rawTags_def Let_def)


subsection \<open>Nested-type resolver\<close>

lemma set_setAdd [simp]: "set (setAdd t s) = insert t (set s)"
  by (auto simp: setAdd_def)

lemma distinct_setAdd [simp]: "distinct (setAdd t s) = distinct s"
  by (auto simp: setAdd_def)

lemma continues_refl: "continues g st st"
  unfolding continues_def newEntries_def by (intro conjI exI[of _ "[]"]) simp_all

lemma continues_trans:
  assumes "continues g a b" and "continues g b c"
  shows "continues g a c"
proof -
  from assms(1) obtain i1 t1 where 1: "newEntries g a b i1 t1" 
    and s1: "set (parsedNestedTypes a) \<subseteq> set (parsedNestedTypes b)"
    and d1: "distinct (parsedNestedTypes a) \<longrightarrow> distinct (parsedNestedTypes b)"
    unfolding continues_def by blast
  from assms(2) obtain i2 t2 where 2: "newEntries g b c i2 t2" 
    and s2: "set (parsedNestedTypes b) \<subseteq> set (parsedNestedTypes c)"
    and d2: "distinct (parsedNestedTypes b) \<longrightarrow> distinct (parsedNestedTypes c)"
    unfolding continues_def by blast
  have "newEntries g a c (i1 @ i2) (t1 @ t2)"
    using 1 2 s1 s2 unfolding newEntries_def by auto
  then show ?thesis
    using s1 s2 d1 d2 unfolding continues_def by blast
qed

lemma continues_parsed_only:
  assumes "set (parsedNestedTypes st) \<subseteq> set p'" and "distinct (parsedNestedTypes st) \<longrightarrow> distinct p'"
  shows "continues g st (st\<lparr>parsedNestedTypes := p'\<rparr>)"
  using assms unfolding continues_def newEntries_def
  by (intro conjI exI[of _ "[]"]) simp_all

lemma hasJSDocTitle_parsed:
  assumes "hasJSDocTitle g d p = (b, p')"
  shows "set p \<subseteq> set p' \<and> (distinct p \<longrightarrow> distinct p') \<and> (\<not> b \<longrightarrow> p' = p)"
  using assms by (auto simp: hasJSDocTitle_def split: option.splits if_splits)

lemma isTarget_True:
  assumes "isTarget g t p = (True, p')"
  shows "p' = p \<and> t \<notin> set p"
  using assms
  by (auto simp: isTarget_def Let_def split: if_splits prod.splits dest: hasJSDocTitle_parsed)

lemma isTarget_parsed:
  assumes "isTarget g t p = (b, p')"
  shows "set p \<subseteq> set p' \<and> (distinct p \<longrightarrow> distinct p')"
  using assms
  by (auto simp: isTarget_def Let_def split: if_splits prod.splits dest: hasJSDocTitle_parsed)

lemma continues_unvisited:
  assumes "finite U" and "continues g st st'"
  shows "unvisited U st' \<le> unvisited U st"
  unfolding unvisited_def using assms
  by (intro card_mono) (auto simp: continues_def)

lemma forEachM_returnsFrom:
  assumes f: "\<And>a s. unvisited U s < k \<Longrightarrow> returnsFrom g s (f a s)"
    and U: "finite U"
    and s: "unvisited U s < k"
  shows "returnsFrom g s (forEachM f as s)"
  using s
proof (induction as arbitrary: s)
  case Nil
  then show ?case by (simp add: returnsFrom_def continues_refl)
next
  case (Cons a as)
  from f[OF Cons.prems, of a] obtain r where r: "f a s = Some r"
    and c: "\<And>st'. r = Inr st' \<Longrightarrow> continues g s st'"
    unfolding returnsFrom_def by blast
  show ?case
  proof (cases r)
    case (Inl e)
    with r show ?thesis by (simp add: returnsFrom_def)
  next
    case (Inr s')
    have cs: "continues g s s'" using c Inr by simp
    have "unvisited U s' < k"
      using continues_unvisited[OF U cs] Cons.prems by simp
    from Cons.IH[OF this] obtain r' where r': "forEachM f as s' = Some r'"
      and c': "\<And>st'. r' = Inr st' \<Longrightarrow> continues g s' st'"
      unfolding returnsFrom_def by blast
    show ?thesis
      using r Inr r' c' cs continues_trans unfolding returnsFrom_def by auto
  qed
qed

lemma exploreTarget_returnsFrom:
  assumes rec: "\<And>d s. unvisited U s < k \<Longrightarrow> returnsFrom g s (rec d s)"
    and U: "finite U"
    and s: "unvisited U st < k"
  shows "returnsFrom g st (exploreTarget rec g t symb st)"
proof -
  have refl: "returnsFrom g s (Some (Inr s))" for s
    by (simp add: returnsFrom_def continues_refl)
  have raise: "returnsFrom g s (Some (Inl e))" for s e
    by (simp add: returnsFrom_def)
  show ?thesis
    unfolding exploreTarget_def
    by (auto intro!: forEachM_returnsFrom[where U = U and k = k] rec U s refl raise
        split: option.splits)
qed

lemma push_continues:
  assumes "t \<notin> set (parsedNestedTypes st)"
  shows "continues g st
     (st\<lparr>parsedNestedTypes := setAdd t (parsedNestedTypes st),
         nestedTypeList := nestedTypeList st @ [\<lparr>itemTitle = orEmpty (typeNameOf g t), itemSchema = sch\<rparr>],
         emittedFor := emittedFor st @ [t]\<rparr>)"
  unfolding continues_def newEntries_def using assms
  by (intro conjI exI[of _ "[\<lparr>itemTitle = orEmpty (typeNameOf g t), itemSchema = sch\<rparr>]"] exI[of _ "[t]"])
     auto

lemma unvisited_push:
  assumes "finite U" and "t \<in> U" and "t \<notin> set (parsedNestedTypes st)"
    and "parsedNestedTypes st1 = setAdd t (parsedNestedTypes st)"
  shows "unvisited U st1 < unvisited U st"
  unfolding unvisited_def using assms
  by (intro psubset_card_mono) auto

lemma visitDescendant_returnsFrom:
  assumes rec: "\<And>d s. unvisited U s < k \<Longrightarrow> returnsFrom g s (rec d s)"
    and U: "finite U"
    and inU: "getType (nodeOf g descendant) \<in> U"
    and s: "unvisited U st < Suc k"
  shows "returnsFrom g st (visitDescendant rec x g descendant st)"
proof -
  let ?t = "getType (nodeOf g descendant)"
  let ?title = "case getSymbolByType g ?t of None \<Rightarrow> None | Some s \<Rightarrow> Some (getSymName (symbolOf g s))"
  have title: "?title = typeNameOf g ?t" by (simp add: typeNameOf_def)
  show ?thesis
  proof (cases "\<not> isTypeNode (nodeOf g descendant) \<or> \<not> truthyOpt ?title \<or> orEmpty ?title \<in> set KEYWORDS_TO_SKIP")
    case True
    then show ?thesis
      unfolding visitDescendant_def Let_def by (auto simp: returnsFrom_def continues_refl)
  next
    case False
    obtain b p' where it: "isTarget g ?t (parsedNestedTypes st) = (b, p')"
      by (cases "isTarget g ?t (parsedNestedTypes st)") auto
    show ?thesis
    proof (cases b)
      case False
      have "continues g st (st\<lparr>parsedNestedTypes := p'\<rparr>)"
        using isTarget_parsed[OF it] by (intro continues_parsed_only) auto
      then show ?thesis
        using \<open>\<not> (\<not> isTypeNode (nodeOf g descendant) \<or> \<not> truthyOpt ?title \<or> orEmpty ?title \<in> set KEYWORDS_TO_SKIP)\<close> it False
        unfolding visitDescendant_def Let_def by (simp add: returnsFrom_def)
    next
      case True
      with it isTarget_True have p': "p' = parsedNestedTypes st" and fresh: "?t \<notin> set (parsedNestedTypes st)"
        by auto
      define st1 where "st1 = st\<lparr>parsedNestedTypes := setAdd ?t p',
                      nestedTypeList := nestedTypeList st @
                        [\<lparr>itemTitle = orEmpty ?title,
                          itemSchema = NestedTypeSchema
                            [\<lparr>tagName = ''title'', tagValue = orEmpty ?title\<rparr>]
                            (getDeclarationTextBySymbol x g (getSymbolByType g ?t))\<rparr>],
                      emittedFor := emittedFor st @ [?t]\<rparr>"
      have c1: "continues g st st1"
        unfolding st1_def p' title using push_continues[OF fresh] by simp
      have "unvisited U st1 < unvisited U st"
        by (rule unvisited_push[OF U inU fresh]) (simp add: st1_def p')
      then have "unvisited U st1 < k" using s by simp
      from exploreTarget_returnsFrom[OF rec U this]
      have "returnsFrom g st1 (exploreTarget rec g ?t (getSymbolByType g ?t) st1)" by simp
      then have "returnsFrom g st (exploreTarget rec g ?t (getSymbolByType g ?t) st1)"
        using c1 continues_trans unfolding returnsFrom_def by blast
      then show ?thesis
        using \<open>\<not> (\<not> isTypeNode (nodeOf g descendant) \<or> \<not> truthyOpt ?title \<or> orEmpty ?title \<in> set KEYWORDS_TO_SKIP)\<close> it True
        unfolding visitDescendant_def Let_def st1_def by simp
    qed
  qed
qed

lemma forEachM_visit_returnsFrom:
  assumes rec: "\<And>d s. unvisited U s < k \<Longrightarrow> returnsFrom g s (rec d s)"
    and U: "finite U"
    and inU: "\<And>d. getType (nodeOf g d) \<in> U"
    and s: "unvisited U st < Suc k"
  shows "returnsFrom g st (forEachM (visitDescendant rec x g) ds st)"
  by (rule forEachM_returnsFrom[where U = U and k = "Suc k"])
     (auto intro: visitDescendant_returnsFrom rec U inU s)

lemma dumpBody_returnsFrom:
  assumes rec: "\<And>d s. unvisited U s < k \<Longrightarrow> returnsFrom g s (rec d s)"
    and U: "finite U"
    and inU: "\<And>d. getType (nodeOf g d) \<in> U"
    and s: "unvisited U st < Suc k"
  shows "returnsFrom g st (dumpBody rec x g dcl st)"
proof (cases dcl)
  case None
  then show ?thesis by (simp add: dumpBody_def returnsFrom_def continues_refl)
next
  case (Some d)
  obtain b p' where h: "hasJSDocTitle g dcl (parsedNestedTypes st) = (b, p')"
    by (cases "hasJSDocTitle g dcl (parsedNestedTypes st)") auto
  have c: "continues g st (st\<lparr>parsedNestedTypes := p'\<rparr>)"
    using hasJSDocTitle_parsed[OF h] by (intro continues_parsed_only) auto
  show ?thesis
  proof (cases b)
    case True
    then show ?thesis using Some h c by (simp add: dumpBody_def returnsFrom_def)
  next
    case False
    have "unvisited U (st\<lparr>parsedNestedTypes := p'\<rparr>) < Suc k"
      using continues_unvisited[OF U c] s by simp
    from forEachM_visit_returnsFrom[OF rec U inU this]
    have "returnsFrom g (st\<lparr>parsedNestedTypes := p'\<rparr>)
        (forEachM (visitDescendant rec x g) (forEachDescendant (nodeOf g d)) (st\<lparr>parsedNestedTypes := p'\<rparr>))" 
      by simp
    then have "returnsFrom g st
        (forEachM (visitDescendant rec x g) (forEachDescendant (nodeOf g d)) (st\<lparr>parsedNestedTypes := p'\<rparr>))"
      using c continues_trans unfolding returnsFrom_def by blast
    then show ?thesis using Some h False by (simp add: dumpBody_def)
  qed
qed

lemma dumpNestedTypes_returnsFrom:
  assumes U: "finite U"
    and inU: "\<And>d. getType (nodeOf g d) \<in> U"
  shows "unvisited U st < n \<Longrightarrow> returnsFrom g st (dumpNestedTypes n x g dcl st)"
proof (induction n arbitrary: st dcl)
  case 0
  then show ?case by simp
next
  case (Suc n)
  show ?case
    unfolding dumpNestedTypes.simps
    by (rule dumpBody_returnsFrom[where U = U and k = n]) (auto intro: Suc U inU)
qed

text \<open>More fuel does not change what \<^verbatim>\<open>dumpNestedTypes\<close> returns.\<close>

lemma forEachM_fuel:
  assumes "\<And>a s r. f a s = Some r \<Longrightarrow> f' a s = Some r"
    and "forEachM f as s = Some r"
  shows "forEachM f' as s = Some r"
  using assms(2)
proof (induction as arbitrary: s)
  case Nil
  then show ?case by simp
next
  case (Cons a as)
  then show ?case
    by (auto split: option.splits sum.splits dest: assms(1))
qed

lemma exploreTarget_fuel:
  assumes rec: "\<And>d s r. rec d s = Some r \<Longrightarrow> rec' d s = Some r"
    and "exploreTarget rec g t sy st = Some r"
  shows "exploreTarget rec' g t sy st = Some r"
proof -
  have sub: "(case getSymbolByType g subType of
              None \<Rightarrow> Some (Inr s)
            | Some subTypeSymbol \<Rightarrow>
                (case getDeclarationBySymbol g (Some subTypeSymbol) of
                   None \<Rightarrow> Some (Inr s)
                 | Some d \<Rightarrow> rec' (Some d) s)) = Some r"
    if "(case getSymbolByType g subType of
              None \<Rightarrow> Some (Inr s)
            | Some subTypeSymbol \<Rightarrow>
                (case getDeclarationBySymbol g (Some subTypeSymbol) of
                   None \<Rightarrow> Some (Inr s)
                 | Some d \<Rightarrow> rec (Some d) s)) = Some r" for subType s r
    using that by (auto split: option.splits intro: rec)
  show ?thesis
    using assms(2) unfolding exploreTarget_def
    by (auto split: if_splits option.splits elim!: forEachM_fuel[rotated] intro: sub rec)
qed

lemma visitDescendant_fuel:
  assumes rec: "\<And>d s r. rec d s = Some r \<Longrightarrow> rec' d s = Some r"
    and "visitDescendant rec x g dsc st = Some r"
  shows "visitDescendant rec' x g dsc st = Some r"
proof -
  have expl: "exploreTarget rec' g t sy s = Some r" if "exploreTarget rec g t sy s = Some r"
    for t sy s r
    using exploreTarget_fuel[where rec = rec and rec' = rec', OF rec that] .
  show ?thesis
    using assms(2) unfolding visitDescendant_def Let_def
    by (auto split: if_splits prod.splits bool.splits intro: expl)
qed

lemma dumpBody_fuel:
  assumes rec: "\<And>d s r. rec d s = Some r \<Longrightarrow> rec' d s = Some r"
    and "dumpBody rec x g dcl st = Some r"
  shows "dumpBody rec' x g dcl st = Some r"
proof -
  have visit: "visitDescendant rec' x g dsc s = Some r" if "visitDescendant rec x g dsc s = Some r"
    for dsc s r
    using visitDescendant_fuel[where rec = rec and rec' = rec', OF rec that] .
  show ?thesis
    using assms(2) unfolding dumpBody_def
    by (auto split: option.splits prod.splits bool.splits
        elim!: forEachM_fuel[rotated] intro: visit)
qed

lemma dumpNestedTypes_Suc_fuel:
  "dumpNestedTypes n x g dcl st = Some r \<Longrightarrow> dumpNestedTypes (Suc n) x g dcl st = Some r"
proof (induction n arbitrary: dcl st r)
  case 0
  then show ?case by simp
next
  case (Suc n)
  show ?case
    using Suc.prems
    by (auto intro: dumpBody_fuel[where rec = "dumpNestedTypes n x g"] Suc.IH)
qed

lemma dumpNestedTypes_more_fuel:
  assumes "dumpNestedTypes n x g dcl st = Some r" and "n \<le> m"
  shows "dumpNestedTypes m x g dcl st = Some r"
  using assms(2,1)
proof (induction m rule: dec_induct)
  case base
  then show ?case .
next
  case (step k)
  then show ?case by (intro dumpNestedTypes_Suc_fuel) simp
qed

text \<open>
  Claim C1. On a project with finitely many types, \<^verbatim>\<open>dumpNestedTypes\<close> returns from
  every state, for every declaration, as soon as the fuel exceeds the number of types not
  yet in the set: the depth of its recursion is bounded by that number, since a type is
  put into the set before the call recurses into its members or properties and a type in
  the set is never a target again. When it returns normally, the set has only grown and
  holds no type twice, and the entries it appended to the list were pushed for pairwise
  distinct types, none of which was in the set before the call: a type contributes at
  most one entry.
\<close>

theorem dumpNestedTypes_terminates_one_entry_per_type:
  assumes "finite (range (\<lambda>d. getType (nodeOf g d)))"
    and "card (range (\<lambda>d. getType (nodeOf g d)) - set (parsedNestedTypes st)) < n"
  shows "\<exists>r. dumpNestedTypes n x g dcl st = Some r
           \<and> (\<forall>st'. r = Inr st' \<longrightarrow> continues g st st')"
  using dumpNestedTypes_returnsFrom[OF assms(1), of g st n x dcl] assms(2)
  by (simp add: returnsFrom_def unvisited_def)

text \<open>The two interfaces \<^verbatim>\<open>A\<close> and \<^verbatim>\<open>B\<close> that refer to each other: the run from the
  property of type \<^verbatim>\<open>A\<close> completes with one entry for each.\<close>

theorem dumpNestedTypes_cyclic_witness:
  "finite (range (\<lambda>d. getType (nodeOf cyclicGraph d)))
   \<and> card (range (\<lambda>d. getType (nodeOf cyclicGraph d)) - set (parsedNestedTypes emptyState)) < 4
   \<and> dumpNestedTypes 4 plainExternals cyclicGraph (Some 1) emptyState =
       Some (Inr \<lparr>nestedTypeList =
          [\<lparr>itemTitle = ''A'',
            itemSchema = NestedTypeSchema [\<lparr>tagName = ''title'', tagValue = ''A''\<rparr>]
              ''interface A { b: B }''\<rparr>,
           \<lparr>itemTitle = ''B'',
            itemSchema = NestedTypeSchema [\<lparr>tagName = ''title'', tagValue = ''B''\<rparr>]
              ''interface B { a: A }''\<rparr>],
          parsedNestedTypes = [1, 2], emittedFor = [1, 2]\<rparr>)
   \<and> continues cyclicGraph emptyState
        \<lparr>nestedTypeList =
          [\<lparr>itemTitle = ''A'',
            itemSchema = NestedTypeSchema [\<lparr>tagName = ''title'', tagValue = ''A''\<rparr>]
              ''interface A { b: B }''\<rparr>,
           \<lparr>itemTitle = ''B'',
            itemSchema = NestedTypeSchema [\<lparr>tagName = ''title'', tagValue = ''B''\<rparr>]
              ''interface B { a: A }''\<rparr>],
          parsedNestedTypes = [1, 2], emittedFor = [1, 2]\<rparr>"
proof -
  let ?U = "range (\<lambda>d. getType (nodeOf cyclicGraph d))"
  have "getType (nodeOf cyclicGraph d) \<in> {0, 1, 2}" for d
    by (simp add: cyclicGraph_def cyclicNodes_def plainNode_def)
  then have sub: "?U \<subseteq> {0, 1, 2}"
    by (intro image_subsetI)
  have fin: "finite ?U"
    using finite_subset[OF sub] by simp
  have "card (?U - set (parsedNestedTypes emptyState)) \<le> card {0::nat, 1, 2}"
    using sub by (intro card_mono) auto
  then have fuel: "card (?U - set (parsedNestedTypes emptyState)) < 4"
    by simp
  have run: "dumpNestedTypes 4 plainExternals cyclicGraph (Some 1) emptyState =
       Some (Inr \<lparr>nestedTypeList =
          [\<lparr>itemTitle = ''A'',
            itemSchema = NestedTypeSchema [\<lparr>tagName = ''title'', tagValue = ''A''\<rparr>]
              ''interface A { b: B }''\<rparr>,
           \<lparr>itemTitle = ''B'',
            itemSchema = NestedTypeSchema [\<lparr>tagName = ''title'', tagValue = ''B''\<rparr>]
              ''interface B { a: A }''\<rparr>],
          parsedNestedTypes = [1, 2], emittedFor = [1, 2]\<rparr>)"
    by code_simp
  show ?thesis
    using dumpNestedTypes_terminates_one_entry_per_type[OF fin fuel, of plainExternals "Some 1"]
      fin fuel run
    by simp
qed

subsection \<open>Properties of one declaration\<close>








lemma getFunctionSchema_returns:
  assumes "getFunctionSchema n x g cfg d st = Some (Inr ((ps, r), st'))"
  shows "r = getReturnTypeText (nodeOf g d)"
  using assms by (auto simp: getFunctionSchema_def split: option.splits sum.splits)

text \<open>
  Claim C10. Whenever the builder gives a declaration the function shape, the field
  \<^verbatim>\<open>returns\<close> of the schema is \<^verbatim>\<open>getReturnType().getText()\<close> of the function node
  (the declaration itself, or the type node of the alias) as it is: neither
  \<^verbatim>\<open>getDisplayTypeWithLink\<close> (links, \<^verbatim>\<open>toSingleLine\<close>, \<^verbatim>\<open>escape\<close>) nor the removal of
  \<^verbatim>\<open>import(...)\<close> prefixes, which the parameter types go through, is applied to it.
\<close>

theorem buildSchema_returns_is_raw_return_type_text:
  assumes "buildSchema n x g cfg d tags st = Some (Inr (FunctionSchema tags' ps r, st'))"
  shows "\<exists>t. typeNodeOf g d = Some t \<and> r = getReturnTypeText (nodeOf g t)"
  using assms
  by (auto simp: buildSchema_def split: option.splits sum.splits if_splits
      dest: getFunctionSchema_returns)

text \<open>The function of the example: parameter and return type have the same text
  \<^verbatim>\<open>import("/p/a").Foo\<close>; the parameter is rendered as a link to \<^verbatim>\<open>Foo\<close>, the return
  type is unchanged.\<close>

theorem buildSchema_returns_is_raw_return_type_text_witness:
  "buildSchema 4 plainExternals demoGraph demoSettings 20 [] emptyState =
     Some (Inr (FunctionSchema []
        [\<lparr>propName = ''x'', propType = ''[Foo](#Foo)'', propIsOptional = False, propTags = [],
          propInitializerText = Some None\<rparr>] importedFoo,
        \<lparr>nestedTypeList =
           [\<lparr>itemTitle = ''Foo'',
             itemSchema = NestedTypeSchema [\<lparr>tagName = ''title'', tagValue = ''Foo''\<rparr>]
               ''interface Foo {}''\<rparr>],
         parsedNestedTypes = [4], emittedFor = [4]\<rparr>))
   \<and> typeNodeOf demoGraph 20 = Some 20
   \<and> getTypeText (typeOf demoGraph (getType (nodeOf demoGraph 21))) = importedFoo
   \<and> getReturnTypeText (nodeOf demoGraph 20) = importedFoo"
proof -
  have run: "buildSchema 4 plainExternals demoGraph demoSettings 20 [] emptyState =
     Some (Inr (FunctionSchema []
        [\<lparr>propName = ''x'', propType = ''[Foo](#Foo)'', propIsOptional = False, propTags = [],
          propInitializerText = Some None\<rparr>] importedFoo,
        \<lparr>nestedTypeList =
           [\<lparr>itemTitle = ''Foo'',
             itemSchema = NestedTypeSchema [\<lparr>tagName = ''title'', tagValue = ''Foo''\<rparr>]
               ''interface Foo {}''\<rparr>],
         parsedNestedTypes = [4], emittedFor = [4]\<rparr>))"
    by code_simp
  have t: "typeNodeOf demoGraph 20 = Some 20"
    by code_simp
  have p: "getTypeText (typeOf demoGraph (getType (nodeOf demoGraph 21))) = importedFoo"
    by (simp add: demoGraph_def demoNodes_def demoTypes_def)
  show ?thesis
    using buildSchema_returns_is_raw_return_type_text[OF run] run t p by simp
qed

subsection \<open>Type-text linkifier\<close>

lemma linkIdentifier_no_match:
  assumes "\<forall>t \<in> set parsed. typeNameOf g t \<noteq> Some text"
  shows "linkIdentifier g nested lf text parsed = text"
  using assms
proof (induction parsed)
  case Nil
  then show ?case by simp
next
  case (Cons t ts)
  then show ?case by (cases "typeNameOf g t") auto
qed

lemma linkIdentifier_first_link:
  "linkIdentifier g nested lf text parsed =
     (case links g nested lf text parsed of
        [] \<Rightarrow> text
      | link # _ \<Rightarrow> ''['' @ text @ '']('' @ link @ '')'')"
proof (induction parsed)
  case Nil
  then show ?case by (simp add: links_def candidates_def)
next
  case (Cons t ts)
  show ?case
  proof (cases "typeNameOf g t")
    case None
    then show ?thesis using Cons by (simp add: links_def candidates_def)
  next
    case (Some name)
    show ?thesis
    proof (cases "truthy name \<and> name = text")
      case False
      then show ?thesis using Cons Some by (auto simp: links_def candidates_def)
    next
      case True
      then show ?thesis
        using Cons Some
        by (cases "linkOf g nested lf t text") (auto simp: links_def candidates_def truthy_def)
    qed
  qed
qed


lemma linkOf_cases:
  "linkOf g nested lf t name =
     (if name \<in> itemTitle ` set nested
      then lf \<lparr>typeName = name, jsDocTitle = None, fullPath = None\<rparr>
      else
        (case getDeclarationBySymbol g (getSymbolByType g t) of
           None \<Rightarrow> None
         | Some d \<Rightarrow>
             if truthyOpt (declarationTitle g (Some d))
             then lf \<lparr>typeName = name, jsDocTitle = declarationTitle g (Some d),
                      fullPath = Some (getFilePath (nodeOf g d))\<rparr>
             else None))"
proof (cases "find (\<lambda>item. itemTitle item = name) nested")
  case None
  then have "name \<notin> itemTitle ` set nested"
    by (auto simp: find_None_iff)
  then show ?thesis
    using None by (auto simp: linkOf_def Let_def declarationTitle_def split: option.splits)
next
  case (Some i)
  then have "name \<in> itemTitle ` set nested"
    by (auto simp: find_Some_iff image_iff)
  then show ?thesis
    using Some by (simp add: linkOf_def)
qed

lemma isTarget_not_external:
  assumes "isTarget g t parsed = (True, p')"
  shows "\<not> externalType g t"
  using assms
  by (auto simp: isTarget_def externalType_def Let_def truthy_def hasJSDocTitle_def
      split: if_splits prod.splits option.splits)

lemma stringIncludes_nonempty: "stringIncludes s ''/node_modules/'' \<Longrightarrow> s \<noteq> []"
  by (cases s) auto

lemma isTarget_titled:
  assumes "t \<notin> set parsed"
    and "getDeclarationBySymbol g (getSymbolByType g t) = Some d"
    and "truthyOpt (declarationTitle g (Some d))"
  shows "isTarget g t parsed = (False, setAdd (getType (nodeOf g d)) parsed)"
  using assms by (simp add: isTarget_def hasJSDocTitle_def Let_def)

lemma isTarget_external_untitled:
  assumes "externalType g t"
    and "getDeclarationBySymbol g (getSymbolByType g t) = Some d"
    and "\<not> truthyOpt (declarationTitle g (Some d))"
  shows "isTarget g t parsed = (False, parsed)"
  using assms
  by (auto simp: isTarget_def hasJSDocTitle_def Let_def externalType_def truthy_def
      dest: stringIncludes_nonempty)

text \<open>
  Claim C8, as the code has it. For an identifier of a type text, the candidates are the
  types in the set whose symbol name is exactly the identifier's text. For a candidate,
  the link function is called with the type name alone when the nested-type list has an
  entry titled with that name, and otherwise with name, title and definition path, and
  only when the backing declaration of the type has a non-empty title. The identifier
  becomes \<^verbatim>\<open>[name](link)\<close> for the first candidate, in insertion order, with a
  non-empty link; when no candidate has one, and when no type in the set has the
  identifier's name, the text is left as it is. A type from an external-library path is
  never a target, so it gets no nested entry; but \<^verbatim>\<open>isTarget\<close> looks at the title of the
  backing declaration before it looks at the path, and puts the type of a titled
  declaration into the set: a titled external type is visited and linked as any other
  titled type, an untitled one is left out of the set by \<^verbatim>\<open>isTarget\<close>.
\<close>

theorem linkifier_substitutes_first_link_of_visited_name:
  "linkIdentifier g nested lf text parsed =
     (case links g nested lf text parsed of
        [] \<Rightarrow> text
      | link # _ \<Rightarrow> ''['' @ text @ '']('' @ link @ '')'')
   \<and> ((\<forall>t \<in> set parsed. typeNameOf g t \<noteq> Some text)
        \<longrightarrow> linkIdentifier g nested lf text parsed = text)
   \<and> linkOf g nested lf t name =
       (if name \<in> itemTitle ` set nested
        then lf \<lparr>typeName = name, jsDocTitle = None, fullPath = None\<rparr>
        else
          (case getDeclarationBySymbol g (getSymbolByType g t) of
             None \<Rightarrow> None
           | Some d \<Rightarrow>
               if truthyOpt (declarationTitle g (Some d))
               then lf \<lparr>typeName = name, jsDocTitle = declarationTitle g (Some d),
                        fullPath = Some (getFilePath (nodeOf g d))\<rparr>
               else None))
   \<and> (\<forall>p'. isTarget g t parsed = (True, p') \<longrightarrow> \<not> externalType g t)
   \<and> (\<forall>d. t \<notin> set parsed \<and> getDeclarationBySymbol g (getSymbolByType g t) = Some d
          \<and> truthyOpt (declarationTitle g (Some d))
        \<longrightarrow> isTarget g t parsed = (False, setAdd (getType (nodeOf g d)) parsed))
   \<and> (\<forall>d. externalType g t \<and> getDeclarationBySymbol g (getSymbolByType g t) = Some d
          \<and> \<not> truthyOpt (declarationTitle g (Some d))
        \<longrightarrow> isTarget g t parsed = (False, parsed))"
proof (intro conjI allI impI)
  show "linkIdentifier g nested lf text parsed =
     (case links g nested lf text parsed of
        [] \<Rightarrow> text
      | link # _ \<Rightarrow> ''['' @ text @ '']('' @ link @ '')'')"
    by (rule linkIdentifier_first_link)
  show "linkIdentifier g nested lf text parsed = text"
    if "\<forall>t \<in> set parsed. typeNameOf g t \<noteq> Some text"
    using that by (rule linkIdentifier_no_match)
  show "linkOf g nested lf t name =
       (if name \<in> itemTitle ` set nested
        then lf \<lparr>typeName = name, jsDocTitle = None, fullPath = None\<rparr>
        else
          (case getDeclarationBySymbol g (getSymbolByType g t) of
             None \<Rightarrow> None
           | Some d \<Rightarrow>
               if truthyOpt (declarationTitle g (Some d))
               then lf \<lparr>typeName = name, jsDocTitle = declarationTitle g (Some d),
                        fullPath = Some (getFilePath (nodeOf g d))\<rparr>
               else None))"
    by (rule linkOf_cases)
  show "\<not> externalType g t" if "isTarget g t parsed = (True, p')" for p'
    using that by (rule isTarget_not_external)
  show "isTarget g t parsed = (False, setAdd (getType (nodeOf g d)) parsed)"
    if "t \<notin> set parsed \<and> getDeclarationBySymbol g (getSymbolByType g t) = Some d
          \<and> truthyOpt (declarationTitle g (Some d))" for d
    using that by (intro isTarget_titled) simp_all
  show "isTarget g t parsed = (False, parsed)"
    if "externalType g t \<and> getDeclarationBySymbol g (getSymbolByType g t) = Some d
          \<and> \<not> truthyOpt (declarationTitle g (Some d))" for d
    using that by (intro isTarget_external_untitled[where d = d]) simp_all
qed

text \<open>Claim C8 as the specification states it (external-library types are never visited
  and an identifier naming one is left untouched) fails on the property
  \<^verbatim>\<open>q?: Ext | string\<close> of the example, where \<^verbatim>\<open>Ext\<close> is a titled interface under
  \<^verbatim>\<open>node_modules\<close>: its type is in the set after the call and the identifier is a
  link.\<close>

theorem linkifier_external_titled_type_counterexample:
  "externalType demoGraph 3
   \<and> getPropertySchema 4 plainExternals demoGraph demoSettings 14 emptyState =
       Some (Inr (Some \<lparr>propName = ''q'', propType = '' [Ext](#Ext) | string'',
              propIsOptional = True, propTags = [\<lparr>tagName = ''zh'', tagValue = ''x''\<rparr>],
              propInitializerText = None\<rparr>,
            \<lparr>nestedTypeList = [], parsedNestedTypes = [3], emittedFor = []\<rparr>))"
  by code_simp

text \<open>The identifiers \<^verbatim>\<open>Ext\<close> and \<^verbatim>\<open>string\<close> of that property.\<close>

theorem linkifier_substitutes_first_link_of_visited_name_witness:
  "linkIdentifier demoGraph [] (defaultLinkFormatter plainExternals) ''Ext'' [3] = ''[Ext](#Ext)''
   \<and> linkIdentifier demoGraph [] (defaultLinkFormatter plainExternals) ''string'' [3] = ''string''
   \<and> isTarget demoGraph 3 [] = (False, [3])"
proof -
  have l1: "links demoGraph [] (defaultLinkFormatter plainExternals) ''Ext'' [3] = [''#Ext'']"
    by code_simp
  have l2: "\<forall>t \<in> set [3]. typeNameOf demoGraph t \<noteq> Some ''string''"
    by code_simp
  have d: "getDeclarationBySymbol demoGraph (getSymbolByType demoGraph 3) = Some 17"
    by code_simp
  have t: "truthyOpt (declarationTitle demoGraph (Some 17))"
    by code_simp
  have ty: "setAdd (getType (nodeOf demoGraph 17)) [] = [3]"
    by code_simp
  note first = linkifier_substitutes_first_link_of_visited_name[of demoGraph "[]" "defaultLinkFormatter plainExternals" "''Ext''" "[3]" 3 "''Ext''"]
  note second = linkifier_substitutes_first_link_of_visited_name[of demoGraph "[]" "defaultLinkFormatter plainExternals" "''string''" "[3]" 3 "''Ext''"]
  note third = linkifier_substitutes_first_link_of_visited_name[of demoGraph "[]" "defaultLinkFormatter plainExternals" "''Ext''" "[]" 3 "''Ext''"]
  have a: "linkIdentifier demoGraph [] (defaultLinkFormatter plainExternals) ''Ext'' [3] = ''[Ext](#Ext)''"
    using first[THEN conjunct1] l1 by (simp del: linkIdentifier.simps)
  have b: "linkIdentifier demoGraph [] (defaultLinkFormatter plainExternals) ''string'' [3] = ''string''"
    using second[THEN conjunct2, THEN conjunct1] l2 by blast
  have "isTarget demoGraph 3 [] = (False, setAdd (getType (nodeOf demoGraph 17)) [])"
    using third[THEN conjunct2, THEN conjunct2, THEN conjunct2, THEN conjunct2, THEN conjunct1] d t
    by simp
  then have c: "isTarget demoGraph 3 [] = (False, [3])"
    using ty by simp
  show ?thesis
    using a b c by (simp del: linkIdentifier.simps)
qed

subsection \<open>Schema assembler\<close>

lemma forEachM_preserves:
  assumes "\<And>a s s'. P s \<Longrightarrow> f a s = Some (Inr s') \<Longrightarrow> P s'"
    and "P s" and "forEachM f as s = Some (Inr s')"
  shows "P s'"
  using assms(2,3)
proof (induction as arbitrary: s)
  case Nil
  then show ?case by simp
next
  case (Cons a as)
  then show ?case
    by (auto split: option.splits sum.splits intro: assms(1))
qed

text \<open>No function below \<^verbatim>\<open>generateSchema\<close> reads \<^verbatim>\<open>strictDeclarationOrder\<close>.\<close>

lemma getPropertySchema_order [simp]:
  "getPropertySchema n x g (cfg\<lparr>strictDeclarationOrder := b\<rparr>) s st = getPropertySchema n x g cfg s st"
  by (simp add: getPropertySchema_def Let_def split: list.splits option.splits sum.splits)

lemma pushProperties_order [simp]:
  "pushProperties n x g (cfg\<lparr>strictDeclarationOrder := b\<rparr>) as data st = pushProperties n x g cfg as data st"
  by (induction as arbitrary: data st) (simp_all split: option.splits sum.splits prod.splits)

lemma getParameterSchema_order [simp]:
  "getParameterSchema n x g (cfg\<lparr>strictDeclarationOrder := b\<rparr>) p st = getParameterSchema n x g cfg p st"
  by (simp add: getParameterSchema_def Let_def split: list.splits option.splits sum.splits)

lemma mapParameters_order [simp]:
  "mapParameters n x g (cfg\<lparr>strictDeclarationOrder := b\<rparr>) ps st = mapParameters n x g cfg ps st"
  by (induction ps arbitrary: st) (simp_all split: option.splits sum.splits prod.splits)

lemma buildSchema_order [simp]:
  "buildSchema n x g (cfg\<lparr>strictDeclarationOrder := b\<rparr>) d tags st = buildSchema n x g cfg d tags st"
  by (simp add: buildSchema_def getFunctionSchema_def applySorter_def
      cong: option.case_cong sum.case_cong prod.case_cong if_cong)

lemma processDeclaration_order [simp]:
  "processDeclaration n x g (cfg\<lparr>strictDeclarationOrder := b\<rparr>) = processDeclaration n x g cfg"
  by (intro ext) (simp add: processDeclaration_def split: list.splits option.splits sum.splits prod.splits)


lemma lastSchema_Nil [simp]: "lastSchema t [] = None"
  by (simp add: lastSchema_def)









text \<open>The resolver pushes nested-type schemas only, and the builder never makes one.\<close>

lemma nestedOnly_parsed [simp]: "nestedOnly (st\<lparr>parsedNestedTypes := p\<rparr>) = nestedOnly st"
  by (simp add: nestedOnly_def)

lemma exploreTarget_nestedOnly:
  assumes rec: "\<And>d s s'. nestedOnly s \<Longrightarrow> rec d s = Some (Inr s') \<Longrightarrow> nestedOnly s'"
    and "nestedOnly st" and "exploreTarget rec g t sy st = Some (Inr st')"
  shows "nestedOnly st'"
proof -
  have sub: "nestedOnly s'"
    if "nestedOnly s"
      and "(case getSymbolByType g subType of
              None \<Rightarrow> Some (Inr s)
            | Some subTypeSymbol \<Rightarrow>
                (case getDeclarationBySymbol g (Some subTypeSymbol) of
                   None \<Rightarrow> Some (Inr s)
                 | Some d \<Rightarrow> rec (Some d) s)) = Some (Inr s')" for subType s s'
    using that by (auto split: option.splits intro: rec)
  show ?thesis
    using assms(2,3) unfolding exploreTarget_def
    by (auto split: if_splits option.splits
        elim!: forEachM_preserves[where P = nestedOnly, rotated 2] intro: sub rec)
qed

lemma visitDescendant_nestedOnly:
  assumes rec: "\<And>d s s'. nestedOnly s \<Longrightarrow> rec d s = Some (Inr s') \<Longrightarrow> nestedOnly s'"
    and st: "nestedOnly st" and run: "visitDescendant rec x g dsc st = Some (Inr st')"
  shows "nestedOnly st'"
proof -
  have expl: "nestedOnly s'" if "exploreTarget rec g t sy s = Some (Inr s')" and "nestedOnly s"
    for t sy s s'
    using exploreTarget_nestedOnly[where rec = rec, OF rec that(2,1)] .
  show ?thesis
    using run st unfolding visitDescendant_def Let_def
    apply (auto split: if_splits prod.splits bool.splits elim!: expl)
    apply (simp add: nestedOnly_def)
    done
qed

lemma dumpBody_nestedOnly:
  assumes rec: "\<And>d s s'. nestedOnly s \<Longrightarrow> rec d s = Some (Inr s') \<Longrightarrow> nestedOnly s'"
    and "nestedOnly st" and "dumpBody rec x g dcl st = Some (Inr st')"
  shows "nestedOnly st'"
  using assms(2,3) unfolding dumpBody_def
  by (auto split: option.splits prod.splits bool.splits
      elim!: forEachM_preserves[where P = nestedOnly, rotated 2]
      intro: visitDescendant_nestedOnly[where rec = rec] rec)

lemma dumpNestedTypes_nestedOnly:
  "nestedOnly st \<Longrightarrow> dumpNestedTypes n x g dcl st = Some (Inr st') \<Longrightarrow> nestedOnly st'"
proof (induction n arbitrary: st dcl st')
  case 0
  then show ?case by simp
next
  case (Suc n)
  show ?case
    using Suc.prems
    by (auto intro: dumpBody_nestedOnly[where rec = "dumpNestedTypes n x g"] Suc.IH)
qed

lemma getPropertySchema_nestedOnly:
  "nestedOnly st \<Longrightarrow> getPropertySchema n x g cfg s st = Some (Inr (p, st')) \<Longrightarrow> nestedOnly st'"
  by (auto simp: getPropertySchema_def Let_def
      split: list.splits option.splits sum.splits if_splits dest: dumpNestedTypes_nestedOnly)

lemma pushProperties_nestedOnly:
  "nestedOnly st \<Longrightarrow> pushProperties n x g cfg as data st = Some (Inr (data', st')) \<Longrightarrow> nestedOnly st'"
  by (induction as arbitrary: data st)
     (auto split: option.splits sum.splits prod.splits dest: getPropertySchema_nestedOnly)

lemma getParameterSchema_nestedOnly:
  "nestedOnly st \<Longrightarrow> getParameterSchema n x g cfg p st = Some (Inr (r, st')) \<Longrightarrow> nestedOnly st'"
  by (auto simp: getParameterSchema_def Let_def
      split: option.splits sum.splits dest: dumpNestedTypes_nestedOnly)

lemma mapParameters_nestedOnly:
  "nestedOnly st \<Longrightarrow> mapParameters n x g cfg ps st = Some (Inr (rs, st')) \<Longrightarrow> nestedOnly st'"
  by (induction ps arbitrary: st rs)
     (auto split: option.splits sum.splits prod.splits dest: getParameterSchema_nestedOnly)

lemma buildSchema_nestedOnly:
  assumes "buildSchema n x g cfg d tags st = Some (Inr (sch, st'))"
  shows "\<not> isNestedType sch \<and> (nestedOnly st \<longrightarrow> nestedOnly st')"
  using assms
  by (auto simp: buildSchema_def getFunctionSchema_def
      split: option.splits sum.splits prod.splits if_splits
      dest: mapParameters_nestedOnly pushProperties_nestedOnly)

lemma processDeclaration_entry:
  assumes "processDeclaration n x g cfg d a = Some (Inr a')"
  shows "(nestedOnly (resolver a) \<longrightarrow> nestedOnly (resolver a'))
     \<and> (\<exists>new. schemaList a' = schemaList a @ new
           \<and> map itemTitle new = map (titleOf g) (filter (titled g) [d])
           \<and> list_all (\<lambda>i. \<not> isNestedType (itemSchema i)) new)"
  using assms
  by (auto simp: processDeclaration_def titleOf_def titled_def declarationTitle_def
      split: option.splits sum.splits prod.splits if_splits dest: buildSchema_nestedOnly)

lemma forEachM_processDeclaration_entries:
  assumes "forEachM (processDeclaration n x g cfg) ds a = Some (Inr a')"
  shows "(nestedOnly (resolver a) \<longrightarrow> nestedOnly (resolver a'))
     \<and> (\<exists>new. schemaList a' = schemaList a @ new
           \<and> map itemTitle new = map (titleOf g) (filter (titled g) ds)
           \<and> list_all (\<lambda>i. \<not> isNestedType (itemSchema i)) new)"
  using assms
proof (induction ds arbitrary: a)
  case Nil
  then show ?case by simp
next
  case (Cons d ds)
  from Cons.prems obtain b where b: "processDeclaration n x g cfg d a = Some (Inr b)"
    and rest: "forEachM (processDeclaration n x g cfg) ds b = Some (Inr a')"
    by (auto split: option.splits sum.splits)
  from processDeclaration_entry[OF b] obtain new1 where
    1: "nestedOnly (resolver a) \<longrightarrow> nestedOnly (resolver b)"
    "schemaList b = schemaList a @ new1"
    "map itemTitle new1 = map (titleOf g) (filter (titled g) [d])"
    "list_all (\<lambda>i. \<not> isNestedType (itemSchema i)) new1"
    by blast
  from Cons.IH[OF rest] obtain new2 where
    2: "nestedOnly (resolver b) \<longrightarrow> nestedOnly (resolver a')"
    "schemaList a' = schemaList b @ new2"
    "map itemTitle new2 = map (titleOf g) (filter (titled g) ds)"
    "list_all (\<lambda>i. \<not> isNestedType (itemSchema i)) new2"
    by blast
  have "schemaList a' = schemaList a @ (new1 @ new2)"
    "map itemTitle (new1 @ new2) = map (titleOf g) (filter (titled g) (d # ds))"
    "list_all (\<lambda>i. \<not> isNestedType (itemSchema i)) (new1 @ new2)"
    using 1 2 by auto
  then show ?case using 1(1) 2(1) by blast
qed

text \<open>
  Claim C4. The main loop takes the interfaces, type aliases and functions of the entry
  file in ascending order of start line, declarations of the same line in the order of
  that concatenation. Whenever \<^verbatim>\<open>generateSchema\<close> returns a list, the list is one
  entry for each titled declaration, in that order and under its title, none of them a
  nested-type schema, followed by nested-type schemas only.
\<close>

theorem generateSchema_list_in_line_order_then_nested:
  assumes "generateSchema n x g sf config = Some (Inr (SchemaList l))"
  shows "sorted (map (startLine g) (sortedDeclarations g sf))
     \<and> (\<forall>k. filter (\<lambda>d. startLine g d = k) (sortedDeclarations g sf) =
             filter (\<lambda>d. startLine g d = k) (getInterfaces sf @ getTypeAliases sf @ getFunctions sf))
     \<and> (\<exists>tops nested. l = tops @ nested
           \<and> map itemTitle tops = map (titleOf g) (filter (titled g) (sortedDeclarations g sf))
           \<and> list_all (\<lambda>i. \<not> isNestedType (itemSchema i)) tops
           \<and> list_all (\<lambda>i. isNestedType (itemSchema i)) nested)"
proof (intro conjI allI)
  have eq: "sortedDeclarations g sf =
      sort_key (startLine g) (getInterfaces sf @ getTypeAliases sf @ getFunctions sf)"
    by (simp add: sortedDeclarations_def startLine_def[abs_def])
  show "sorted (map (startLine g) (sortedDeclarations g sf))"
    unfolding eq by (rule sorted_sort_key)
  show "filter (\<lambda>d. startLine g d = k) (sortedDeclarations g sf) =
      filter (\<lambda>d. startLine g d = k) (getInterfaces sf @ getTypeAliases sf @ getFunctions sf)" for k
    unfolding eq by (rule sort_key_stable)
  let ?cfg = "settingsOf x config"
  from assms obtain a where
    loop: "forEachM (processDeclaration n x g ?cfg) (sortedDeclarations g sf) emptyAssembly = Some (Inr a)"
    and out: "assemble ?cfg a = SchemaList l"
    by (auto simp: generateSchema_def Let_def split: option.splits sum.splits)
  from forEachM_processDeclaration_entries[OF loop] obtain tops where
    n: "nestedOnly (resolver a)"
    and t: "schemaList a = tops"
    "map itemTitle tops = map (titleOf g) (filter (titled g) (sortedDeclarations g sf))"
    "list_all (\<lambda>i. \<not> isNestedType (itemSchema i)) tops"
    by (auto simp: emptyAssembly_def emptyState_def nestedOnly_def)
  have "l = tops @ nestedTypeList (resolver a)"
    using out t(1) by (auto simp: assemble_def Let_def split: if_splits)
  then show "\<exists>tops nested. l = tops @ nested
           \<and> map itemTitle tops = map (titleOf g) (filter (titled g) (sortedDeclarations g sf))
           \<and> list_all (\<lambda>i. \<not> isNestedType (itemSchema i)) tops
           \<and> list_all (\<lambda>i. isNestedType (itemSchema i)) nested"
    using t n unfolding nestedOnly_def by blast
qed



text \<open>The entry file with documented declarations at lines 5, 1 and 3.\<close>

theorem generateSchema_list_in_line_order_then_nested_witness:
  "map (startLine demoGraph) (getInterfaces orderFile @ getTypeAliases orderFile @ getFunctions orderFile)
      = [5, 1, 3]
   \<and> map (startLine demoGraph) (sortedDeclarations demoGraph orderFile) = [1, 3, 5]
   \<and> (\<exists>l. generateSchema 4 plainExternals demoGraph orderFile (withStrictOrder (Some demoConfig)) =
          Some (Inr (SchemaList l))
        \<and> map itemTitle l = [''One'', ''Three'', ''Five'', ''Foo'']
        \<and> map (\<lambda>i. isNestedType (itemSchema i)) l = [False, False, False, True])"
proof -
  have "case generateSchema 4 plainExternals demoGraph orderFile (withStrictOrder (Some demoConfig)) of
          Some (Inr (SchemaList l)) \<Rightarrow>
            map itemTitle l = [''One'', ''Three'', ''Five'', ''Foo'']
            \<and> map (\<lambda>i. isNestedType (itemSchema i)) l = [False, False, False, True]
        | _ \<Rightarrow> False"
    by code_simp
  then obtain l where
    l: "generateSchema 4 plainExternals demoGraph orderFile (withStrictOrder (Some demoConfig)) =
          Some (Inr (SchemaList l))"
    and t: "map itemTitle l = [''One'', ''Three'', ''Five'', ''Foo'']"
      "map (\<lambda>i. isNestedType (itemSchema i)) l = [False, False, False, True]"
    by (auto split: option.splits sum.splits schemaOutput.splits)
  have a: "map (startLine demoGraph)
      (getInterfaces orderFile @ getTypeAliases orderFile @ getFunctions orderFile) = [5, 1, 3]"
    by code_simp
  have b: "map (startLine demoGraph) (sortedDeclarations demoGraph orderFile) = [1, 3, 5]"
    by code_simp
  note generateSchema_list_in_line_order_then_nested[OF l]
  then show ?thesis
    using l t a b by (intro conjI exI[of _ l]) simp_all
qed

text \<open>\<^verbatim>\<open>generate\<close> returns \<^verbatim>\<open>undefined\<close> exactly when the project has no such file,
  whatever the fuel.\<close>

lemma generate_absent:
  assumes "getSourceFile (projectOf h config) file = None"
  shows "generate n x h file config = Some (Inr None)"
  using assms by (simp add: generate_def)

lemma generate_present:
  assumes "getSourceFile (projectOf h config) file = Some sf"
  shows "generate n x h file config \<noteq> Some (Inr None)"
  using assms by (auto simp: generate_def split: option.splits sum.splits)

text \<open>
  Claim C9 says that \<^verbatim>\<open>generate\<close> returns a schema for every entry file that is in
  the project. On the entry file \<^verbatim>\<open>/** @title Rec */ type Rec = Record<'a', string>\<close>
  it raises instead: the property \<^verbatim>\<open>a\<close> of the mapped type is a symbol without
  declarations, and \<^verbatim>\<open>getPropertySchema\<close> calls \<^verbatim>\<open>getText\<close> on
  \<^verbatim>\<open>sym.getDeclarations()[0]\<close> without the guard that \<^verbatim>\<open>getDeclarationBySymbol\<close> and
  its callers have.
\<close>

theorem generate_raises_on_symbol_without_declaration:
  "getSourceFile (projectOf demoHost (Some demoConfig)) ''/project/src/mapped.ts'' = Some mappedFile
   \<and> (\<forall>n. generate n plainExternals demoHost ''/project/src/mapped.ts'' (Some demoConfig)
          = Some (Inl TypeError))"
  by (simp add: generate_def projectOf_def demoHost_def demoConfig_def demoProject_def generateSchema_def
      sortedDeclarations_def mappedFile_def processDeclaration_def demoGraph_def demoNodes_def
      titleDoc_def getDeclarationTags_def rawTags_def truthy_def buildSchema_def typeNodeOf_def
      plainNode_def demoTypes_def plainType_def getPropertySchema_def demoSymbols_def plainSymbol_def
      emptyAssembly_def Let_def)

end
